theory Spec2Isabelle
  imports Complex_Main "HOL-Library.Sublist"
begin

section \<open>Values of the host language\<close>

subsection \<open>Strings\<close>

text \<open>
  A TypeScript string is a sequence of UTF-16 code units. A code unit is modelled as a
  natural number, so that the Polish letters of the keyword tables and the whole
  white-space class of the language are single elements; \<open>js\<close> embeds an ASCII literal.
\<close>

type_synonym jschar = nat
type_synonym jsstring = "nat list"

definition js :: "string \<Rightarrow> jsstring" where
  "js s = map of_char s"

subsection \<open>Numbers\<close>

text \<open>
  A \<open>number\<close> is NaN, one of the two infinities, or a finite value, which is carried as
  the real number it denotes. The sign of zero is not represented. Every arithmetic
  operation of the language computes the exact result and rounds it to the nearest
  binary64 value, ties to the even significand; \<open>round64\<close> is that rounding.

  \<open>bitLength n\<close> is the number of binary digits of \<open>n\<close>, and \<open>ilog2 x\<close> the integer part
  of the binary logarithm of a positive \<open>x\<close>. A binary64 value of magnitude \<open>a\<close> is a
  multiple of \<open>pow2 (exponent64 a)\<close>: its significand has 53 bits, and the exponent of a
  subnormal value is \<open>- 1074\<close>. A magnitude that rounds to \<open>2 ^ 1024\<close> or more overflows to
  an infinity, and one that rounds to zero underflows.
\<close>

datatype number = NaN | PosInfinity | NegInfinity | Fin real

fun bitLength :: "nat \<Rightarrow> nat" where
  "bitLength n = (if n = 0 then 0 else Suc (bitLength (n div 2)))"

declare bitLength.simps [simp del]

definition ilog2 :: "real \<Rightarrow> int" where
  "ilog2 x = (if 1 \<le> x then int (bitLength (nat \<lfloor>x\<rfloor>)) - 1
              else - int (bitLength (nat (\<lceil>1 / x\<rceil> - 1))))"

definition pow2 :: "int \<Rightarrow> real" where
  "pow2 e = (if 0 \<le> e then 2 ^ nat e else 1 / 2 ^ nat (- e))"

definition roundHalfEven :: "real \<Rightarrow> int" where
  "roundHalfEven q =
     (if q - of_int \<lfloor>q\<rfloor> < 1 / 2 then \<lfloor>q\<rfloor>
      else if 1 / 2 < q - of_int \<lfloor>q\<rfloor> then \<lfloor>q\<rfloor> + 1
      else if even \<lfloor>q\<rfloor> then \<lfloor>q\<rfloor> else \<lfloor>q\<rfloor> + 1)"

definition exponent64 :: "real \<Rightarrow> int" where
  "exponent64 a = max (ilog2 a - 52) (- 1074)"

definition roundAt :: "int \<Rightarrow> real \<Rightarrow> real" where
  "roundAt e a = of_int (roundHalfEven (a / pow2 e)) * pow2 e"

definition overflow64 :: "bool \<Rightarrow> real \<Rightarrow> number" where
  "overflow64 neg v =
     (if 2 ^ 1024 \<le> v then (if neg then NegInfinity else PosInfinity)
      else Fin (if neg then - v else v))"

definition round64 :: "real \<Rightarrow> number" where
  "round64 x =
     (if x = 0 then Fin 0 else overflow64 (x < 0) (roundAt (exponent64 \<bar>x\<bar>) \<bar>x\<bar>))"

text \<open>
  The arithmetic of the language. The rules for NaN and the infinities are those of
  IEEE 754; the result of two finite operands is rounded. Addition is commutative but
  not associative.
\<close>

instantiation number :: "{plus, uminus, minus, times, inverse}"
begin

fun plus_number :: "number \<Rightarrow> number \<Rightarrow> number" where
  "plus_number NaN _ = NaN"
| "plus_number _ NaN = NaN"
| "plus_number PosInfinity NegInfinity = NaN"
| "plus_number NegInfinity PosInfinity = NaN"
| "plus_number PosInfinity _ = PosInfinity"
| "plus_number _ PosInfinity = PosInfinity"
| "plus_number NegInfinity _ = NegInfinity"
| "plus_number _ NegInfinity = NegInfinity"
| "plus_number (Fin a) (Fin b) = round64 (a + b)"

fun uminus_number :: "number \<Rightarrow> number" where
  "uminus_number NaN = NaN"
| "uminus_number PosInfinity = NegInfinity"
| "uminus_number NegInfinity = PosInfinity"
| "uminus_number (Fin a) = Fin (- a)"

definition minus_number :: "number \<Rightarrow> number \<Rightarrow> number" where
  "minus_number a b = a + (- b)"

fun times_number :: "number \<Rightarrow> number \<Rightarrow> number" where
  "times_number NaN _ = NaN"
| "times_number _ NaN = NaN"
| "times_number (Fin a) (Fin b) = round64 (a * b)"
| "times_number (Fin a) PosInfinity =
     (if a = 0 then NaN else if 0 < a then PosInfinity else NegInfinity)"
| "times_number (Fin a) NegInfinity =
     (if a = 0 then NaN else if 0 < a then NegInfinity else PosInfinity)"
| "times_number PosInfinity (Fin b) =
     (if b = 0 then NaN else if 0 < b then PosInfinity else NegInfinity)"
| "times_number NegInfinity (Fin b) =
     (if b = 0 then NaN else if 0 < b then NegInfinity else PosInfinity)"
| "times_number PosInfinity PosInfinity = PosInfinity"
| "times_number NegInfinity NegInfinity = PosInfinity"
| "times_number PosInfinity NegInfinity = NegInfinity"
| "times_number NegInfinity PosInfinity = NegInfinity"

fun divide_number :: "number \<Rightarrow> number \<Rightarrow> number" where
  "divide_number NaN _ = NaN"
| "divide_number _ NaN = NaN"
| "divide_number (Fin a) (Fin b) =
     (if b = 0 then (if a = 0 then NaN else if 0 < a then PosInfinity else NegInfinity)
      else round64 (a / b))"
| "divide_number (Fin a) PosInfinity = Fin 0"
| "divide_number (Fin a) NegInfinity = Fin 0"
| "divide_number PosInfinity (Fin b) = (if 0 \<le> b then PosInfinity else NegInfinity)"
| "divide_number NegInfinity (Fin b) = (if 0 \<le> b then NegInfinity else PosInfinity)"
| "divide_number PosInfinity _ = NaN"
| "divide_number NegInfinity _ = NaN"

fun inverse_number :: "number \<Rightarrow> number" where
  "inverse_number NaN = NaN"
| "inverse_number PosInfinity = Fin 0"
| "inverse_number NegInfinity = Fin 0"
| "inverse_number (Fin b) = (if b = 0 then PosInfinity else round64 (1 / b))"

instance ..

end

text \<open>The comparisons of the language: every comparison with NaN is false.\<close>

fun num_gt :: "number \<Rightarrow> number \<Rightarrow> bool" where
  "num_gt NaN _ = False"
| "num_gt _ NaN = False"
| "num_gt PosInfinity b = (b \<noteq> PosInfinity)"
| "num_gt NegInfinity _ = False"
| "num_gt (Fin a) PosInfinity = False"
| "num_gt (Fin a) NegInfinity = True"
| "num_gt (Fin a) (Fin b) = (b < a)"

definition strict_eq :: "number \<Rightarrow> number \<Rightarrow> bool" where
  "strict_eq a b = (a \<noteq> NaN \<and> a = b)"

definition num_ge :: "number \<Rightarrow> number \<Rightarrow> bool" where
  "num_ge a b = (num_gt a b \<or> strict_eq a b)"

definition isNaN :: "number \<Rightarrow> bool" where
  "isNaN a = (a = NaN)"

fun Math_abs :: "number \<Rightarrow> number" where
  "Math_abs NaN = NaN"
| "Math_abs PosInfinity = PosInfinity"
| "Math_abs NegInfinity = PosInfinity"
| "Math_abs (Fin a) = Fin \<bar>a\<bar>"

definition Math_max :: "number \<Rightarrow> number \<Rightarrow> number" where
  "Math_max a b = (if a = NaN \<or> b = NaN then NaN else if num_gt b a then b else a)"

section \<open>Data model (types/index.ts)\<close>

datatype Currency = USD | PLN

datatype TransactionType = Income | Expense

datatype RecurringInterval = Weekly | Monthly | Yearly

record Transaction =
  id_tx :: jsstring
  type :: TransactionType
  amount :: number
  currency :: Currency
  category :: jsstring
  description :: jsstring
  date :: jsstring
  exchangeRateAtTime :: "number option"
  recurring :: "bool option"
  recurringInterval :: "RecurringInterval option"

section \<open>Currency conversion (utils/currency.ts)\<close>

fun convertCurrency :: "number \<Rightarrow> Currency \<Rightarrow> Currency \<Rightarrow> number \<Rightarrow> number" where
  "convertCurrency amt from to exchangeRate =
     (if from = to then amt
      else if from = USD \<and> to = PLN then amt * exchangeRate
      else if from = PLN \<and> to = USD then amt / exchangeRate
      else amt)"

section \<open>Budget aggregation and advice (utils/advisor.ts)\<close>

record BudgetBreakdown =
  totalIncome :: number
  totalExpenses :: number
  needs :: number
  wants :: number
  savings :: number
  debtPayments :: number
  netBalance :: number

datatype Status = excellent | good | fair | needs_attention

record SavingsAdvice =
  optimalSavingsRate :: number
  optimalSavingsAmount :: number
  currentSavingsRate :: number
  needsPercent :: number
  wantsPercent :: number
  savingsPercent :: number
  status :: Status
  tips :: "jsstring list"

definition NEEDS :: "jsstring set" where
  "NEEDS = {js ''Housing'', js ''Transportation'', js ''Food'', js ''Utilities'',
            js ''Healthcare'', js ''Insurance''}"

definition WANTS :: "jsstring set" where
  "WANTS = {js ''Entertainment'', js ''Shopping'', js ''Education'', js ''Personal'',
            js ''Subscriptions''}"

text \<open>
  The running totals of the loop of \<open>getMonthlyBreakdown\<close>, and one iteration of it.
  \<open>txAmount\<close> is the loop's local \<open>amount\<close>: the transaction's amount converted with its
  own rate when it carries one (the \<open>??\<close> operator), with the supplied rate otherwise.
\<close>

record Totals =
  accIncome :: number
  accExpenses :: number
  accNeeds :: number
  accWants :: number
  accDebt :: number

definition txRate :: "Transaction \<Rightarrow> number \<Rightarrow> number" where
  "txRate t exchangeRate =
     (case exchangeRateAtTime t of Some r \<Rightarrow> r | None \<Rightarrow> exchangeRate)"

definition txAmount :: "Transaction \<Rightarrow> Currency \<Rightarrow> number \<Rightarrow> number" where
  "txAmount t primaryCurrency exchangeRate =
     convertCurrency (amount t) (currency t) primaryCurrency (txRate t exchangeRate)"

definition addTx :: "Currency \<Rightarrow> number \<Rightarrow> Totals \<Rightarrow> Transaction \<Rightarrow> Totals" where
  "addTx primaryCurrency exchangeRate acc t =
     (let a = txAmount t primaryCurrency exchangeRate in
      if type t = Income then acc\<lparr>accIncome := accIncome acc + a\<rparr>
      else
        (let acc' = acc\<lparr>accExpenses := accExpenses acc + a\<rparr> in
         if category t = js ''Debt Payment'' then acc'\<lparr>accDebt := accDebt acc' + a\<rparr>
         else if category t \<in> NEEDS then acc'\<lparr>accNeeds := accNeeds acc' + a\<rparr>
         else if category t \<in> WANTS then acc'\<lparr>accWants := accWants acc' + a\<rparr>
         else acc'\<lparr>accWants := accWants acc' + a\<rparr>))"

text \<open>
  \<open>new Date(t.date)\<close> with \<open>getMonth()\<close> and \<open>getFullYear()\<close> belongs to the host and
  depends on its time zone. It is the parameter \<open>cal\<close>, which gives the month (from 0)
  and the year of a date string, both NaN for a string that is no date.
\<close>

definition inMonth :: "(jsstring \<Rightarrow> number \<times> number) \<Rightarrow> number \<Rightarrow> number \<Rightarrow> Transaction \<Rightarrow> bool" where
  "inMonth cal month year t =
     (strict_eq (fst (cal (date t))) month \<and> strict_eq (snd (cal (date t))) year)"

definition getMonthlyBreakdown ::
  "(jsstring \<Rightarrow> number \<times> number) \<Rightarrow> Transaction list \<Rightarrow> number \<Rightarrow> number \<Rightarrow> Currency \<Rightarrow> number
     \<Rightarrow> BudgetBreakdown" where
  "getMonthlyBreakdown cal transactions month year primaryCurrency exchangeRate =
     (let monthTransactions = filter (inMonth cal month year) transactions;
          z = \<lparr>accIncome = Fin 0, accExpenses = Fin 0, accNeeds = Fin 0, accWants = Fin 0,
               accDebt = Fin 0\<rparr>;
          r = foldl (addTx primaryCurrency exchangeRate) z monthTransactions
      in \<lparr>totalIncome = accIncome r,
          totalExpenses = accExpenses r,
          needs = accNeeds r,
          wants = accWants r,
          savings = accIncome r - accExpenses r,
          debtPayments = accDebt r,
          netBalance = accIncome r - accExpenses r\<rparr>)"

text \<open>
  \<open>Number.prototype.toFixed\<close> formats a number with a fixed count of decimals; it is a
  function of the host and the parameter \<open>toFixed\<close> of the advice function.
\<close>

definition getSavingsAdvice :: "(number \<Rightarrow> nat \<Rightarrow> jsstring) \<Rightarrow> BudgetBreakdown \<Rightarrow> SavingsAdvice" where
  "getSavingsAdvice toFixed breakdown =
     (if strict_eq (totalIncome breakdown) (Fin 0) then
        \<lparr>optimalSavingsRate = Fin 20,
         optimalSavingsAmount = Fin 0,
         currentSavingsRate = Fin 0,
         needsPercent = Fin 0,
         wantsPercent = Fin 0,
         savingsPercent = Fin 0,
         status = needs_attention,
         tips = [js ''Start by tracking your income to get personalized advice.'']\<rparr>
      else
        (let ti = totalIncome breakdown;
             np = (needs breakdown / ti) * Fin 100;
             wp = (wants breakdown / ti) * Fin 100;
             sp = (savings breakdown / ti) * Fin 100;
             optimalRate =
               (if num_gt (debtPayments breakdown) (Fin 0)
                then Math_max (Fin 10) (Fin 20 - (debtPayments breakdown / ti) * Fin 100)
                else Fin 20);
             (st, tps) =
               (if num_ge sp (Fin 20) then
                  (excellent,
                   [js ''You're saving 20%+ of your income. Keep it up!''] @
                   (if num_gt np (Fin 50)
                    then [js ''Your needs spending is above 50%. See if you can reduce housing or transportation costs.'']
                    else []))
                else if num_ge sp (Fin 10) then
                  (good,
                   [js ''You're saving '' @ toFixed sp 1 @
                    js ''%. Try to reach 20% for optimal financial health.''] @
                   (if num_gt wp (Fin 30)
                    then [js ''Consider cutting back on wants - entertainment, shopping, or subscriptions.'']
                    else []))
                else if num_ge sp (Fin 0) then
                  (fair,
                   [js ''You're breaking even or barely saving. Look for areas to cut expenses.''] @
                   (if num_gt np (Fin 60)
                    then [js ''Your essential expenses are high. Consider cheaper alternatives for housing or transport.'']
                    else []) @
                   (if num_gt wp (Fin 30)
                    then [js ''Reduce discretionary spending to boost your savings rate.'']
                    else []))
                else
                  (needs_attention,
                   [js ''You're spending more than you earn. This needs immediate attention.'',
                    js ''Prioritize cutting non-essential expenses first.''] @
                   (if num_gt wp (Fin 20)
                    then [js ''Cut wants spending by '' @
                          toFixed ((wp - Fin 20) * ti / Fin 100) 0 @
                          js '' to start saving.'']
                    else [])))
         in \<lparr>optimalSavingsRate = optimalRate,
             optimalSavingsAmount = (ti * optimalRate) / Fin 100,
             currentSavingsRate = sp,
             needsPercent = np,
             wantsPercent = wp,
             savingsPercent = sp,
             status = st,
             tips = tps\<rparr>))"

section \<open>String operations of the host language\<close>

text \<open>
  White space is the class that \<open>String.prototype.trim\<close>, the pattern \<open>\s\<close> and
  \<open>parseFloat\<close> share: the white-space characters and the line terminators.
\<close>

definition isWhiteSpace :: "jschar \<Rightarrow> bool" where
  "isWhiteSpace c =
     (c = 0x09 \<or> c = 0x0A \<or> c = 0x0B \<or> c = 0x0C \<or> c = 0x0D \<or> c = 0x20 \<or> c = 0xA0 \<or>
      c = 0x1680 \<or> (0x2000 \<le> c \<and> c \<le> 0x200A) \<or> c = 0x2028 \<or> c = 0x2029 \<or>
      c = 0x202F \<or> c = 0x205F \<or> c = 0x3000 \<or> c = 0xFEFF)"

definition trim :: "jsstring \<Rightarrow> jsstring" where
  "trim s = rev (dropWhile isWhiteSpace (rev (dropWhile isWhiteSpace s)))"

text \<open>A string that neither starts nor ends with white space.\<close>

definition noOuterSpace :: "jsstring \<Rightarrow> bool" where
  "noOuterSpace s = (s = [] \<or> (\<not> isWhiteSpace (hd s) \<and> \<not> isWhiteSpace (last s)))"

definition isDigit :: "jschar \<Rightarrow> bool" where
  "isDigit c = (0x30 \<le> c \<and> c \<le> 0x39)"

text \<open>
  Case mapping follows the Unicode tables on Basic Latin, on the Latin-1 Supplement and
  on the Polish letters of Latin Extended-A, and on the characters outside these ranges
  whose image has a letter of them: among them the dotted capital I, the Kelvin and
  Angstrom signs, the dotless i, the long s and the Latin ligatures. A mapping may yield
  more than one code unit. Every other code unit is left as it is; the program compares
  the mapped strings with words over the modelled ranges only, and never returns them.
\<close>

definition polishUpper :: "jschar list" where
  "polishUpper = [0x104, 0x106, 0x118, 0x141, 0x143, 0x15A, 0x179, 0x17B]"

definition polishLower :: "jschar list" where
  "polishLower = [0x105, 0x107, 0x119, 0x142, 0x144, 0x15B, 0x17A, 0x17C]"

definition specialLower :: "(jschar \<times> jsstring) list" where
  "specialLower =
     [(0x130, [0x69, 0x307]), (0x178, [0xFF]), (0x1E9E, [0xDF]), (0x212A, [0x6B]),
      (0x212B, [0xE5])]"

definition specialUpper :: "(jschar \<times> jsstring) list" where
  "specialUpper =
     [(0xB5, [0x39C]), (0xDF, [0x53, 0x53]), (0xFF, [0x178]), (0x131, [0x49]),
      (0x149, [0x2BC, 0x4E]), (0x17F, [0x53]), (0x1F0, [0x4A, 0x30C]),
      (0x1E96, [0x48, 0x331]), (0x1E97, [0x54, 0x308]), (0x1E98, [0x57, 0x30A]),
      (0x1E99, [0x59, 0x30A]), (0x1E9A, [0x41, 0x2BE]),
      (0xFB00, [0x46, 0x46]), (0xFB01, [0x46, 0x49]), (0xFB02, [0x46, 0x4C]),
      (0xFB03, [0x46, 0x46, 0x49]), (0xFB04, [0x46, 0x46, 0x4C]),
      (0xFB05, [0x53, 0x54]), (0xFB06, [0x53, 0x54])]"

definition lowerChars :: "jschar \<Rightarrow> jsstring" where
  "lowerChars c =
     (if 0x41 \<le> c \<and> c \<le> 0x5A then [c + 0x20]
      else if 0xC0 \<le> c \<and> c \<le> 0xDE \<and> c \<noteq> 0xD7 then [c + 0x20]
      else case map_of specialLower c of Some l \<Rightarrow> l
           | None \<Rightarrow>
               (case map_of (zip polishUpper polishLower) c of Some l \<Rightarrow> [l]
                | None \<Rightarrow> [c]))"

definition upperChars :: "jschar \<Rightarrow> jsstring" where
  "upperChars c =
     (if 0x61 \<le> c \<and> c \<le> 0x7A then [c - 0x20]
      else if 0xE0 \<le> c \<and> c \<le> 0xFE \<and> c \<noteq> 0xF7 then [c - 0x20]
      else case map_of specialUpper c of Some u \<Rightarrow> u
           | None \<Rightarrow>
               (case map_of (zip polishLower polishUpper) c of Some u \<Rightarrow> [u]
                | None \<Rightarrow> [c]))"

definition toLowerCase :: "jsstring \<Rightarrow> jsstring" where
  "toLowerCase s = concat (map lowerChars s)"

definition toUpperCase :: "jsstring \<Rightarrow> jsstring" where
  "toUpperCase s = concat (map upperChars s)"

fun includes_str :: "jsstring \<Rightarrow> jsstring \<Rightarrow> bool" where
  "includes_str [] k = (k = [])"
| "includes_str (c # cs) k = (prefix k (c # cs) \<or> includes_str cs k)"

text \<open>\<open>s.replace(a, b)\<close> with a one-character string \<open>a\<close>: the first occurrence only.\<close>

fun replaceFirst :: "jschar \<Rightarrow> jschar \<Rightarrow> jsstring \<Rightarrow> jsstring" where
  "replaceFirst a b [] = []"
| "replaceFirst a b (c # cs) = (if c = a then b # cs else c # replaceFirst a b cs)"

text \<open>\<open>s.split(d)\<close> with a one-character separator \<open>d\<close>.\<close>

fun split_str :: "jschar \<Rightarrow> jsstring \<Rightarrow> jsstring list" where
  "split_str d [] = [[]]"
| "split_str d (c # cs) =
     (if c = d then [] # split_str d cs
      else (case split_str d cs of f # fs \<Rightarrow> (c # f) # fs | [] \<Rightarrow> [[c]]))"

text \<open>\<open>s.split(/\r?\n/)\<close>: a line feed, with the carriage return before it if there is one.\<close>

fun splitLines :: "jsstring \<Rightarrow> jsstring list" where
  "splitLines [] = [[]]"
| "splitLines [c] = (if c = 0x0A then [[], []] else [[c]])"
| "splitLines (c # d # cs) =
     (if c = 0x0D \<and> d = 0x0A then [] # splitLines cs
      else if c = 0x0A then [] # splitLines (d # cs)
      else (case splitLines (d # cs) of f # fs \<Rightarrow> (c # f) # fs | [] \<Rightarrow> [[c]]))"

text \<open>Array access \<open>xs[i]\<close> is \<open>undefined\<close> outside the array; \<open>||\<close> and \<open>??\<close> on it.\<close>

definition elem_at :: "'a list \<Rightarrow> int \<Rightarrow> 'a option" where
  "elem_at xs i = (if 0 \<le> i \<and> nat i < length xs then Some (xs ! nat i) else None)"

definition or_else :: "jsstring option \<Rightarrow> jsstring \<Rightarrow> jsstring" where
  "or_else v d = (case v of None \<Rightarrow> d | Some s \<Rightarrow> if s = [] then d else s)"

definition nullish_else :: "jsstring option \<Rightarrow> jsstring \<Rightarrow> jsstring" where
  "nullish_else v d = (case v of None \<Rightarrow> d | Some s \<Rightarrow> s)"

subsection \<open>parseFloat\<close>

text \<open>
  \<open>parseFloat\<close> skips leading white space and reads the longest prefix that is a decimal
  literal: a sign, then \<open>Infinity\<close> or digits with an optional fraction and an optional
  exponent. Its value is the mathematical value of the literal rounded to binary64, so
  that a literal too large is an infinity and one too small is zero; NaN when there is
  no such prefix.
\<close>

definition digitsValue :: "jsstring \<Rightarrow> nat" where
  "digitsValue ds = foldl (\<lambda>a c. 10 * a + (c - 0x30)) 0 ds"

definition scale10 :: "real \<Rightarrow> int \<Rightarrow> real" where
  "scale10 x k = (if 0 \<le> k then x * 10 ^ nat k else x / 10 ^ nat (- k))"

definition readSign :: "jsstring \<Rightarrow> bool \<times> jsstring" where
  "readSign s =
     (case s of [] \<Rightarrow> (False, [])
      | c # r \<Rightarrow> if c = 0x2D then (True, r) else if c = 0x2B then (False, r) else (False, s))"

definition exponentPart :: "jsstring \<Rightarrow> int" where
  "exponentPart s =
     (case s of [] \<Rightarrow> 0
      | c # r \<Rightarrow>
          if c = 0x65 \<or> c = 0x45 then
            (let (neg, d) = readSign r; ds = takeWhile isDigit d
             in if ds = [] then 0
                else if neg then - int (digitsValue ds) else int (digitsValue ds))
          else 0)"

text \<open>The literal after the sign: \<open>neg\<close> tells whether the sign was a minus.\<close>

definition parseUnsignedLiteral :: "bool \<Rightarrow> jsstring \<Rightarrow> number" where
  "parseUnsignedLiteral neg u =
     (if prefix (js ''Infinity'') u then (if neg then NegInfinity else PosInfinity)
      else
        (let ip = takeWhile isDigit u;
             r1 = dropWhile isDigit u;
             (fp, r2) = (case r1 of [] \<Rightarrow> ([], [])
                         | c # r \<Rightarrow> if c = 0x2E then (takeWhile isDigit r, dropWhile isDigit r)
                                    else ([], r1))
         in if ip = [] \<and> fp = [] then NaN
            else
              (let m = scale10 (real (digitsValue (ip @ fp))) (exponentPart r2 - int (length fp))
               in round64 (if neg then - m else m))))"

definition parseFloat :: "jsstring \<Rightarrow> number" where
  "parseFloat s =
     (let (neg, u) = readSign (dropWhile isWhiteSpace s) in parseUnsignedLiteral neg u)"

section \<open>CSV import (utils/pkoImport.ts)\<close>

definition PKO_date :: "jsstring list" where
  "PKO_date = [js ''data operacji'', js ''data transakcji'',
               js ''data ksi'' @ [0x119] @ js ''gowania'']"

definition PKO_amount :: "jsstring list" where
  "PKO_amount = [js ''kwota'', js ''kwota transakcji'']"

definition PKO_currency :: "jsstring list" where
  "PKO_currency = [js ''waluta'']"

definition PKO_description :: "jsstring list" where
  "PKO_description = [js ''opis transakcji'', js ''tytu'' @ [0x142], js ''tytul'',
                      js ''tytu'' @ [0x142] @ js '' transakcji'']"

definition PKO_counterparty :: "jsstring list" where
  "PKO_counterparty = [js ''nadawca / odbiorca'', js ''nadawca/odbiorca'',
                       js ''nazwa kontrahenta'', js ''kontrahent'']"

text \<open>The keyword table, in the order in which \<open>Object.entries\<close> lists it.\<close>

definition CATEGORY_KEYWORDS :: "(jsstring \<times> jsstring) list" where
  "CATEGORY_KEYWORDS =
    [(js ''czynsz'', js ''Housing''), (js ''wynajem'', js ''Housing''),
     (js ''mieszkanie'', js ''Housing''), (js ''rent'', js ''Housing''),
     (js ''mortgage'', js ''Housing''), (js ''hipoteka'', js ''Housing''),
     (js ''biedronka'', js ''Food''), (js ''lidl'', js ''Food''),
     ([0x17C] @ js ''abka'', js ''Food''), (js ''zabka'', js ''Food''),
     (js ''auchan'', js ''Food''), (js ''carrefour'', js ''Food''),
     (js ''kaufland'', js ''Food''), (js ''stokrotka'', js ''Food''),
     (js ''netto'', js ''Food''), (js ''restaurant'', js ''Food''),
     (js ''restauracja'', js ''Food''), (js ''mcdonalds'', js ''Food''),
     (js ''kfc'', js ''Food''), (js ''uber eats'', js ''Food''),
     (js ''glovo'', js ''Food''), (js ''bolt food'', js ''Food''),
     (js ''pyszne'', js ''Food''),
     (js ''uber'', js ''Transportation''), (js ''bolt'', js ''Transportation''),
     (js ''orlen'', js ''Transportation''), (js ''bp'', js ''Transportation''),
     (js ''shell'', js ''Transportation''), (js ''paliwo'', js ''Transportation''),
     (js ''mpk'', js ''Transportation''), (js ''ztm'', js ''Transportation''),
     (js ''koleje'', js ''Transportation''), (js ''pkp'', js ''Transportation''),
     (js ''flixbus'', js ''Transportation''), (js ''parking'', js ''Transportation''),
     (js ''pge'', js ''Utilities''), (js ''tauron'', js ''Utilities''),
     (js ''enea'', js ''Utilities''), (js ''energa'', js ''Utilities''),
     (js ''wodoci'' @ [0x105] @ js ''gi'', js ''Utilities''),
     (js ''wodociagi'', js ''Utilities''), (js ''internet'', js ''Utilities''),
     (js ''orange'', js ''Utilities''), (js ''play'', js ''Utilities''),
     (js ''t-mobile'', js ''Utilities''), (js ''plus'', js ''Utilities''),
     (js ''netflix'', js ''Entertainment''), (js ''spotify'', js ''Entertainment''),
     (js ''hbo'', js ''Entertainment''), (js ''disney'', js ''Entertainment''),
     (js ''cinema'', js ''Entertainment''), (js ''kino'', js ''Entertainment''),
     (js ''multikino'', js ''Entertainment''), (js ''helios'', js ''Entertainment''),
     (js ''allegro'', js ''Shopping''), (js ''amazon'', js ''Shopping''),
     (js ''zalando'', js ''Shopping''), (js ''mediamarkt'', js ''Shopping''),
     (js ''media markt'', js ''Shopping''), (js ''rtv euro'', js ''Shopping''),
     (js ''ikea'', js ''Shopping''), (js ''decathlon'', js ''Shopping''),
     (js ''rossmann'', js ''Shopping''), (js ''hebe'', js ''Shopping''),
     (js ''apteka'', js ''Healthcare''), (js ''pharmacy'', js ''Healthcare''),
     (js ''lekarz'', js ''Healthcare''), (js ''doctor'', js ''Healthcare''),
     (js ''medicover'', js ''Healthcare''), (js ''luxmed'', js ''Healthcare''),
     (js ''enel-med'', js ''Healthcare''),
     (js ''ubezpieczenie'', js ''Insurance''), (js ''pzu'', js ''Insurance''),
     (js ''warta'', js ''Insurance''), (js ''ergo hestia'', js ''Insurance''),
     (js ''uczelnia'', js ''Education''), (js ''szko'' @ [0x142] @ js ''a'', js ''Education''),
     (js ''kurs'', js ''Education''), (js ''udemy'', js ''Education''),
     (js ''coursera'', js ''Education''),
     (js ''subskrypcja'', js ''Subscriptions''), (js ''subscription'', js ''Subscriptions''),
     (js ''apple'', js ''Subscriptions''), (js ''google storage'', js ''Subscriptions''),
     (js ''youtube premium'', js ''Subscriptions''),
     (js ''wynagrodzenie'', js ''Salary''),
     (js ''przelew z tytulu wynagrodzenia'', js ''Salary''),
     (js ''salary'', js ''Salary''), (js ''pensja'', js ''Salary'')]"

definition detectCategory :: "jsstring \<Rightarrow> jsstring" where
  "detectCategory descr =
     (let lower = toLowerCase descr in
      case find (\<lambda>(keyword, cat). includes_str lower keyword) CATEGORY_KEYWORDS of
        Some (keyword, cat) \<Rightarrow> cat
      | None \<Rightarrow> js ''Other'')"

definition indexOf :: "jsstring list \<Rightarrow> jsstring \<Rightarrow> int" where
  "indexOf xs x = (if x \<in> set xs then int (length (takeWhile (\<lambda>y. y \<noteq> x) xs)) else - 1)"

definition findColumnIndex :: "jsstring list \<Rightarrow> jsstring list \<Rightarrow> int" where
  "findColumnIndex headers candidates =
     (let normalizedHeaders = map (\<lambda>h. trim (toLowerCase h)) headers in
      case find (\<lambda>candidate. indexOf normalizedHeaders candidate \<noteq> - 1) candidates of
        Some candidate \<Rightarrow> indexOf normalizedHeaders candidate
      | None \<Rightarrow> - 1)"

definition parsePKOAmount :: "jsstring \<Rightarrow> number" where
  "parsePKOAmount raw =
     (let cleaned = filter (\<lambda>c. \<not> isWhiteSpace c) (trim raw);
          cleaned' =
            (if includes_str cleaned (js '','') \<and> includes_str cleaned (js ''.'')
             then replaceFirst 0x2C 0x2E (filter (\<lambda>c. c \<noteq> 0x2E) cleaned)
             else if includes_str cleaned (js '','') then replaceFirst 0x2C 0x2E cleaned
             else cleaned)
      in parseFloat cleaned')"

text \<open>The three patterns of \<open>parseDate\<close>, on a string of exactly ten code units.\<close>

definition isSep :: "jschar \<Rightarrow> bool" where
  "isSep c = (c = 0x2E \<or> c = 0x2D \<or> c = 0x2F)"

definition matchISO :: "jsstring \<Rightarrow> bool" where
  "matchISO t =
     (length t = 10 \<and> list_all isDigit (take 4 t) \<and> t ! 4 = 0x2D \<and>
      list_all isDigit (take 2 (drop 5 t)) \<and> t ! 7 = 0x2D \<and> list_all isDigit (drop 8 t))"

definition matchDMY :: "jsstring \<Rightarrow> bool" where
  "matchDMY t =
     (length t = 10 \<and> list_all isDigit (take 2 t) \<and> isSep (t ! 2) \<and>
      list_all isDigit (take 2 (drop 3 t)) \<and> isSep (t ! 5) \<and> list_all isDigit (drop 6 t))"

definition matchYMD :: "jsstring \<Rightarrow> bool" where
  "matchYMD t =
     (length t = 10 \<and> list_all isDigit (take 4 t) \<and> isSep (t ! 4) \<and>
      list_all isDigit (take 2 (drop 5 t)) \<and> isSep (t ! 7) \<and> list_all isDigit (drop 8 t))"

definition parseDate :: "jsstring \<Rightarrow> jsstring" where
  "parseDate raw =
     (let trimmed = trim raw in
      if matchISO trimmed then trimmed
      else if matchDMY trimmed
        then drop 6 trimmed @ js ''-'' @ take 2 (drop 3 trimmed) @ js ''-'' @ take 2 trimmed
      else if matchYMD trimmed
        then take 4 trimmed @ js ''-'' @ take 2 (drop 5 trimmed) @ js ''-'' @ drop 8 trimmed
      else trimmed)"

record ColumnMapping =
  date_col :: int
  amount_col :: int
  description_col :: int
  currency_col :: int
  counterparty_col :: int

record ParsedBankTransaction =
  p_date :: jsstring
  p_amount :: number
  p_description :: jsstring
  p_currency :: Currency
  counterparty :: jsstring
  suggestedCategory :: jsstring
  suggestedType :: TransactionType
  raw :: "jsstring list"

record ParseResult =
  headers :: "jsstring list"
  transactions :: "ParsedBankTransaction list"
  autoMapped :: bool
  mapping :: ColumnMapping

definition delimiters :: "jschar list" where
  "delimiters = [0x2C, 0x3B, 0x09, 0x7C]"

definition detectDelimiter :: "jsstring \<Rightarrow> jschar" where
  "detectDelimiter firstLine =
     fst (foldl (\<lambda>(best, bestCount) d.
                   let count = length (split_str d firstLine)
                   in if count > bestCount then (d, count) else (best, bestCount))
                (0x2C, 0) delimiters)"

text \<open>
  The loop of \<open>parseCSVLine\<close> over the rest of the line, with the fields pushed so far,
  the field being read and the quote state.
\<close>

fun parseCSVLine_loop :: "jschar \<Rightarrow> jsstring \<Rightarrow> jsstring list \<Rightarrow> jsstring \<Rightarrow> bool \<Rightarrow> jsstring list" where
  "parseCSVLine_loop delimiter [] result current inQuotes = result @ [trim current]"
| "parseCSVLine_loop delimiter [c] result current inQuotes =
     (if c = 0x22 then parseCSVLine_loop delimiter [] result current (\<not> inQuotes)
      else if c = delimiter \<and> \<not> inQuotes
        then parseCSVLine_loop delimiter [] (result @ [trim current]) [] inQuotes
      else parseCSVLine_loop delimiter [] result (current @ [c]) inQuotes)"
| "parseCSVLine_loop delimiter (c # n # rest) result current inQuotes =
     (if c = 0x22 then
        (if inQuotes \<and> n = 0x22
         then parseCSVLine_loop delimiter rest result (current @ [0x22]) inQuotes
         else parseCSVLine_loop delimiter (n # rest) result current (\<not> inQuotes))
      else if c = delimiter \<and> \<not> inQuotes
        then parseCSVLine_loop delimiter (n # rest) (result @ [trim current]) [] inQuotes
      else parseCSVLine_loop delimiter (n # rest) result (current @ [c]) inQuotes)"

definition parseCSVLine :: "jsstring \<Rightarrow> jschar \<Rightarrow> jsstring list" where
  "parseCSVLine line delimiter = parseCSVLine_loop delimiter line [] [] False"

definition detectCurrency :: "jsstring \<Rightarrow> Currency" where
  "detectCurrency rawCurrency =
     (if rawCurrency = js ''PLN'' then PLN else if rawCurrency = js ''USD'' then USD else PLN)"

text \<open>
  One iteration of the loop over the data lines of \<open>parseCSV\<close>: \<open>None\<close> where the
  loop continues without a transaction.
\<close>

definition parseRow :: "ColumnMapping \<Rightarrow> jsstring list \<Rightarrow> ParsedBankTransaction option" where
  "parseRow mp flds =
     (if length flds < 2 then None
      else
        (let rawAmount = or_else (elem_at flds (amount_col mp)) (js ''0'');
             amt = parsePKOAmount rawAmount
         in if isNaN amt \<or> strict_eq amt (Fin 0) then None
            else
              (let descr = or_else (elem_at flds (description_col mp)) [];
                   cp = (if counterparty_col mp \<ge> 0
                         then or_else (elem_at flds (counterparty_col mp)) [] else []);
                   fullDesc = (if cp \<noteq> [] then cp @ js '' - '' @ descr else descr);
                   rawCurrency = (if currency_col mp \<ge> 0
                                  then toUpperCase (trim (or_else (elem_at flds (currency_col mp)) []))
                                  else []);
                   cur = detectCurrency rawCurrency;
                   isIncome = num_gt amt (Fin 0);
                   cat = detectCategory fullDesc
               in Some \<lparr>p_date = parseDate (or_else (elem_at flds (date_col mp)) []),
                        p_amount = Math_abs amt,
                        p_description = take 200 fullDesc,
                        p_currency = cur,
                        counterparty = cp,
                        suggestedCategory =
                          (if isIncome \<and> cat = js ''Other'' then js ''Other Income'' else cat),
                        suggestedType = (if isIncome then Income else Expense),
                        raw = flds\<rparr>)))"

definition parseCSV :: "jsstring \<Rightarrow> ParseResult" where
  "parseCSV csvText =
     (let lines = filter (\<lambda>l. length (trim l) > 0) (splitLines csvText) in
      if length lines < 2 then
        \<lparr>headers = [], transactions = [], autoMapped = False,
         mapping = \<lparr>date_col = 0, amount_col = 1, description_col = 2, currency_col = - 1,
                    counterparty_col = - 1\<rparr>\<rparr>
      else
        (let delimiter = detectDelimiter (hd lines);
             hs = parseCSVLine (hd lines) delimiter;
             dateIdx = findColumnIndex hs PKO_date;
             amountIdx = findColumnIndex hs PKO_amount;
             descIdx = findColumnIndex hs PKO_description;
             currencyIdx = findColumnIndex hs PKO_currency;
             counterpartyIdx = findColumnIndex hs PKO_counterparty;
             am = (dateIdx \<noteq> - 1 \<and> amountIdx \<noteq> - 1 \<and> descIdx \<noteq> - 1);
             mp = \<lparr>date_col = (if dateIdx \<noteq> - 1 then dateIdx else 0),
                   amount_col = (if amountIdx \<noteq> - 1 then amountIdx else 1),
                   description_col = (if descIdx \<noteq> - 1 then descIdx else 2),
                   currency_col = currencyIdx,
                   counterparty_col = counterpartyIdx\<rparr>
         in \<lparr>headers = hs,
             transactions =
               List.map_filter (\<lambda>l. parseRow mp (parseCSVLine l delimiter)) (tl lines),
             autoMapped = am,
             mapping = mp\<rparr>))"

section \<open>Manual column mapping (pages/BankImport.tsx)\<close>

definition detectCategoryFallback :: "jsstring \<Rightarrow> jsstring" where
  "detectCategoryFallback descr =
     (let lower = toLowerCase descr; has = includes_str lower in
      if has (js ''wynagrodzenie'') \<or> has (js ''salary'') \<or> has (js ''pensja'')
        then js ''Salary''
      else if has (js ''biedronka'') \<or> has (js ''lidl'') \<or> has ([0xC5, 0xBC] @ js ''abka'') \<or>
              has (js ''restaurant'') \<or> has (js ''mcdonalds'') \<or> has (js ''kfc'')
        then js ''Food''
      else if has (js ''czynsz'') \<or> has (js ''wynajem'') \<or> has (js ''rent'') \<or>
              has (js ''hipoteka'')
        then js ''Housing''
      else if has (js ''uber'') \<or> has (js ''bolt'') \<or> has (js ''orlen'') \<or>
              has (js ''paliwo'') \<or> has (js ''pkp'')
        then js ''Transportation''
      else if has (js ''pge'') \<or> has (js ''tauron'') \<or> has (js ''internet'') \<or>
              has (js ''orange'')
        then js ''Utilities''
      else if has (js ''netflix'') \<or> has (js ''spotify'') \<or> has (js ''kino'')
        then js ''Entertainment''
      else if has (js ''allegro'') \<or> has (js ''amazon'') \<or> has (js ''zalando'')
        then js ''Shopping''
      else if has (js ''apteka'') \<or> has (js ''medicover'') \<or> has (js ''luxmed'')
        then js ''Healthcare''
      else js ''Other'')"

definition parseDateFallback :: "jsstring \<Rightarrow> jsstring" where
  "parseDateFallback rawDate =
     (let trimmed = trim rawDate in
      if matchISO trimmed then trimmed
      else if matchDMY trimmed
        then drop 6 trimmed @ js ''-'' @ take 2 (drop 3 trimmed) @ js ''-'' @ take 2 trimmed
      else if matchYMD trimmed
        then take 4 trimmed @ js ''-'' @ take 2 (drop 5 trimmed) @ js ''-'' @ drop 8 trimmed
      else trimmed)"

text \<open>The function mapped over the parsed transactions: \<open>None\<close> is its \<open>null\<close>.\<close>

definition remapRow :: "ColumnMapping \<Rightarrow> ParsedBankTransaction \<Rightarrow> ParsedBankTransaction option" where
  "remapRow mp tx =
     (let rw = raw tx;
          rawAmount = nullish_else (elem_at rw (amount_col mp)) (js ''0'');
          cleaned = filter (\<lambda>c. \<not> isWhiteSpace c) (trim rawAmount);
          cleaned' =
            (if includes_str cleaned (js '','') \<and> includes_str cleaned (js ''.'')
             then replaceFirst 0x2C 0x2E (filter (\<lambda>c. c \<noteq> 0x2E) cleaned)
             else if includes_str cleaned (js '','') then replaceFirst 0x2C 0x2E cleaned
             else cleaned);
          amt = parseFloat cleaned'
      in if isNaN amt \<or> strict_eq amt (Fin 0) then None
         else
           (let descr = nullish_else (elem_at rw (description_col mp)) [];
                cp = (if counterparty_col mp \<ge> 0
                      then nullish_else (elem_at rw (counterparty_col mp)) [] else []);
                fullDesc = (if cp \<noteq> [] then cp @ js '' - '' @ descr else descr);
                rawCurrency = (if currency_col mp \<ge> 0
                               then toUpperCase (trim (nullish_else (elem_at rw (currency_col mp)) []))
                               else []);
                cur = detectCurrency rawCurrency;
                isIncome = num_gt amt (Fin 0);
                cat = detectCategoryFallback fullDesc;
                rawDate = nullish_else (elem_at rw (date_col mp)) [];
                dt = parseDateFallback rawDate
            in Some \<lparr>p_date = dt,
                     p_amount = Math_abs amt,
                     p_description = take 200 fullDesc,
                     p_currency = cur,
                     counterparty = cp,
                     suggestedCategory =
                       (if isIncome \<and> cat = js ''Other'' then js ''Other Income'' else cat),
                     suggestedType = (if isIncome then Income else Expense),
                     raw = rw\<rparr>))"

definition remapTransactions :: "ParseResult \<Rightarrow> ColumnMapping \<Rightarrow> ParsedBankTransaction list" where
  "remapTransactions result mp = List.map_filter (remapRow mp) (transactions result)"

text \<open>A parsed transaction with its suggested category blanked.\<close>

definition withoutCategory :: "ParsedBankTransaction \<Rightarrow> ParsedBankTransaction" where
  "withoutCategory tx = tx\<lparr>suggestedCategory := []\<rparr>"

section \<open>Export and import of the dataset (utils/storage.ts)\<close>

record Debt =
  debt_id :: jsstring
  debt_name :: jsstring
  totalAmount :: number
  paidAmount :: number
  debt_currency :: Currency
  interestRate :: "number option"
  dueDate :: "jsstring option"
  minimumPayment :: "number option"

record SavingsGoal =
  goal_id :: jsstring
  goal_name :: jsstring
  targetAmount :: number
  currentAmount :: number
  goal_currency :: Currency
  deadline :: "jsstring option"

record UserSettings =
  primaryCurrency :: Currency
  settings_exchangeRate :: number
  autoExchangeRate :: bool
  monthlyBudget :: "number option"

record AppData =
  data_transactions :: "Transaction list"
  debts :: "Debt list"
  savingsGoals :: "SavingsGoal list"
  settings :: UserSettings

text \<open>
  The values of the language that a dataset consists of at run time. An object is the
  list of its own properties in the order of their creation.
\<close>

datatype jsvalue =
    JUndefined
  | JNull
  | JBool bool
  | JNum number
  | JStr jsstring
  | JArr "jsvalue list"
  | JObj "(jsstring \<times> jsvalue) list"

text \<open>
  A JSON document: what a well-formed JSON text denotes. JSON has neither
  \<open>undefined\<close> nor a number that is not finite. A text is represented by what
  \<open>JSON.parse\<close> reads in it: a document, or nothing when the text is malformed; a
  number literal is represented by the binary64 value that \<open>JSON.parse\<close> reads in it,
  which for a literal written by \<open>JSON.stringify\<close> is the number written.
  The layout of the text (the indentation by two spaces) does not show in the model.
\<close>

datatype json =
    Null
  | Bool bool
  | Num real
  | Str jsstring
  | Arr "json list"
  | Obj "(jsstring \<times> json) list"

datatype jsontext = Malformed | Text json

text \<open>
  \<open>JSON.stringify\<close>: a number that is not finite is written as \<open>null\<close>, an
  \<open>undefined\<close> element of an array as \<open>null\<close>, and a property whose value is
  \<open>undefined\<close> is left out. The result is \<open>None\<close> for \<open>undefined\<close> itself.
\<close>

fun serialize :: "jsvalue \<Rightarrow> json option"
  and serializeElements :: "jsvalue list \<Rightarrow> json list"
  and serializeProperties :: "(jsstring \<times> jsvalue) list \<Rightarrow> (jsstring \<times> json) list" where
  "serialize JUndefined = None"
| "serialize JNull = Some Null"
| "serialize (JBool b) = Some (Bool b)"
| "serialize (JNum n) = Some (case n of Fin r \<Rightarrow> Num r | _ \<Rightarrow> Null)"
| "serialize (JStr s) = Some (Str s)"
| "serialize (JArr xs) = Some (Arr (serializeElements xs))"
| "serialize (JObj ps) = Some (Obj (serializeProperties ps))"
| "serializeElements [] = []"
| "serializeElements (x # xs) =
     (case serialize x of None \<Rightarrow> Null | Some j \<Rightarrow> j) # serializeElements xs"
| "serializeProperties [] = []"
| "serializeProperties (p # ps) =
     (case serialize (snd p) of None \<Rightarrow> serializeProperties ps
      | Some j \<Rightarrow> (fst p, j) # serializeProperties ps)"

definition JSON_stringify :: "jsvalue \<Rightarrow> jsontext option" where
  "JSON_stringify v = map_option Text (serialize v)"

text \<open>
  \<open>JSON.parse\<close> builds the value of a document; a member name that occurs again
  overwrites the value of its first occurrence. It throws on a malformed text, which is
  the result \<open>None\<close>.
\<close>

fun setProperty :: "(jsstring \<times> jsvalue) list \<Rightarrow> jsstring \<Rightarrow> jsvalue \<Rightarrow> (jsstring \<times> jsvalue) list" where
  "setProperty [] k v = [(k, v)]"
| "setProperty (p # ps) k v = (if fst p = k then (k, v) # ps else p # setProperty ps k v)"

fun revive :: "json \<Rightarrow> jsvalue"
  and reviveElements :: "json list \<Rightarrow> jsvalue list"
  and reviveMembers :: "(jsstring \<times> jsvalue) list \<Rightarrow> (jsstring \<times> json) list \<Rightarrow> (jsstring \<times> jsvalue) list" where
  "revive Null = JNull"
| "revive (Bool b) = JBool b"
| "revive (Num r) = JNum (Fin r)"
| "revive (Str s) = JStr s"
| "revive (Arr xs) = JArr (reviveElements xs)"
| "revive (Obj ms) = JObj (reviveMembers [] ms)"
| "reviveElements [] = []"
| "reviveElements (x # xs) = revive x # reviveElements xs"
| "reviveMembers acc [] = acc"
| "reviveMembers acc (m # ms) = reviveMembers (setProperty acc (fst m) (revive (snd m))) ms"

definition JSON_parse :: "jsontext \<Rightarrow> jsvalue option" where
  "JSON_parse t = (case t of Malformed \<Rightarrow> None | Text j \<Rightarrow> Some (revive j))"

text \<open>
  Reading a property: a TypeError (\<open>None\<close>) on \<open>null\<close> and \<open>undefined\<close>, the own
  property of an object, and \<open>undefined\<close> where there is none. The two names that
  \<open>importData\<close> reads are no properties of a string, a number, a boolean or an array.
\<close>

fun getProperty :: "jsvalue \<Rightarrow> jsstring \<Rightarrow> jsvalue option" where
  "getProperty JUndefined k = None"
| "getProperty JNull k = None"
| "getProperty (JObj ps) k = Some (case map_of ps k of None \<Rightarrow> JUndefined | Some v \<Rightarrow> v)"
| "getProperty v k = Some JUndefined"

fun truthy :: "jsvalue \<Rightarrow> bool" where
  "truthy JUndefined = False"
| "truthy JNull = False"
| "truthy (JBool b) = b"
| "truthy (JNum n) = (n \<noteq> NaN \<and> n \<noteq> Fin 0)"
| "truthy (JStr s) = (s \<noteq> [])"
| "truthy (JArr xs) = True"
| "truthy (JObj ps) = True"

text \<open>The object that a typed value is at run time; an absent optional field is no property.\<close>

definition optional :: "jsstring \<Rightarrow> ('a \<Rightarrow> jsvalue) \<Rightarrow> 'a option \<Rightarrow> (jsstring \<times> jsvalue) list" where
  "optional k f v = (case v of None \<Rightarrow> [] | Some x \<Rightarrow> [(k, f x)])"

definition valueOfCurrency :: "Currency \<Rightarrow> jsvalue" where
  "valueOfCurrency c = JStr (case c of USD \<Rightarrow> js ''USD'' | PLN \<Rightarrow> js ''PLN'')"

definition valueOfType :: "TransactionType \<Rightarrow> jsvalue" where
  "valueOfType t = JStr (case t of Income \<Rightarrow> js ''income'' | Expense \<Rightarrow> js ''expense'')"

definition valueOfInterval :: "RecurringInterval \<Rightarrow> jsvalue" where
  "valueOfInterval i =
     JStr (case i of Weekly \<Rightarrow> js ''weekly'' | Monthly \<Rightarrow> js ''monthly'' | Yearly \<Rightarrow> js ''yearly'')"

definition valueOfTransaction :: "Transaction \<Rightarrow> jsvalue" where
  "valueOfTransaction t =
     JObj ([(js ''id'', JStr (id_tx t)),
            (js ''type'', valueOfType (type t)),
            (js ''amount'', JNum (amount t)),
            (js ''currency'', valueOfCurrency (currency t)),
            (js ''category'', JStr (category t)),
            (js ''description'', JStr (description t)),
            (js ''date'', JStr (date t))] @
           optional (js ''exchangeRateAtTime'') JNum (exchangeRateAtTime t) @
           optional (js ''recurring'') JBool (recurring t) @
           optional (js ''recurringInterval'') valueOfInterval (recurringInterval t))"

definition valueOfDebt :: "Debt \<Rightarrow> jsvalue" where
  "valueOfDebt d =
     JObj ([(js ''id'', JStr (debt_id d)),
            (js ''name'', JStr (debt_name d)),
            (js ''totalAmount'', JNum (totalAmount d)),
            (js ''paidAmount'', JNum (paidAmount d)),
            (js ''currency'', valueOfCurrency (debt_currency d))] @
           optional (js ''interestRate'') JNum (interestRate d) @
           optional (js ''dueDate'') JStr (dueDate d) @
           optional (js ''minimumPayment'') JNum (minimumPayment d))"

definition valueOfSavingsGoal :: "SavingsGoal \<Rightarrow> jsvalue" where
  "valueOfSavingsGoal g =
     JObj ([(js ''id'', JStr (goal_id g)),
            (js ''name'', JStr (goal_name g)),
            (js ''targetAmount'', JNum (targetAmount g)),
            (js ''currentAmount'', JNum (currentAmount g)),
            (js ''currency'', valueOfCurrency (goal_currency g))] @
           optional (js ''deadline'') JStr (deadline g))"

definition valueOfSettings :: "UserSettings \<Rightarrow> jsvalue" where
  "valueOfSettings u =
     JObj ([(js ''primaryCurrency'', valueOfCurrency (primaryCurrency u)),
            (js ''exchangeRate'', JNum (settings_exchangeRate u)),
            (js ''autoExchangeRate'', JBool (autoExchangeRate u))] @
           optional (js ''monthlyBudget'') JNum (monthlyBudget u))"

definition valueOfAppData :: "AppData \<Rightarrow> jsvalue" where
  "valueOfAppData d =
     JObj [(js ''transactions'', JArr (map valueOfTransaction (data_transactions d))),
           (js ''debts'', JArr (map valueOfDebt (debts d))),
           (js ''savingsGoals'', JArr (map valueOfSavingsGoal (savingsGoals d))),
           (js ''settings'', valueOfSettings (settings d))]"

text \<open>
  \<open>localStorage\<close> is a store of texts by key, passed in and returned. A store may
  refuse a write, when its quota is exceeded or when storage is not available:
  \<open>setItem\<close> then throws, which is the result \<open>None\<close>. The field \<open>accepts\<close> tells
  which writes a store takes.
\<close>

record Storage =
  items :: "jsstring \<rightharpoonup> jsontext"
  accepts :: "jsstring \<Rightarrow> jsontext \<Rightarrow> bool"

definition setItem :: "jsstring \<Rightarrow> jsontext \<Rightarrow> Storage \<Rightarrow> Storage option" where
  "setItem k t store =
     (if accepts store k t then Some (store\<lparr>items := (items store)(k \<mapsto> t)\<rparr>) else None)"

definition STORAGE_KEY :: jsstring where
  "STORAGE_KEY = js ''finance-dashboard-data''"

text \<open>
  \<open>saveData\<close> writes the text of its argument. For \<open>undefined\<close> there is no text, and
  what \<open>setItem\<close> stores is the word \<open>undefined\<close>, which is no JSON.
\<close>

definition saveData :: "jsvalue \<Rightarrow> Storage \<Rightarrow> Storage option" where
  "saveData v store =
     setItem STORAGE_KEY (case JSON_stringify v of Some t \<Rightarrow> t | None \<Rightarrow> Malformed) store"

definition exportData :: "AppData \<Rightarrow> jsontext" where
  "exportData d = (case JSON_stringify (valueOfAppData d) of Some t \<Rightarrow> t | None \<Rightarrow> Malformed)"

text \<open>
  \<open>importData\<close> returns \<open>null\<close>, here \<open>None\<close>, whenever anything in its \<open>try\<close> block
  throws: the parser, the reading of a property, or the write to the store. The store is
  then as it was.
\<close>

definition importData :: "jsontext \<Rightarrow> Storage \<Rightarrow> jsvalue option \<times> Storage" where
  "importData t store =
     (case JSON_parse t of
        None \<Rightarrow> (None, store)
      | Some parsed \<Rightarrow>
          (case getProperty parsed (js ''transactions'') of
             None \<Rightarrow> (None, store)
           | Some ts \<Rightarrow>
               if truthy ts then
                 (case getProperty parsed (js ''settings'') of
                    None \<Rightarrow> (None, store)
                  | Some st \<Rightarrow>
                      if truthy st then
                        (case saveData parsed store of
                           None \<Rightarrow> (None, store)
                         | Some store' \<Rightarrow> (Some parsed, store'))
                      else (None, store))
               else (None, store)))"

text \<open>The numbers of a dataset, and the datasets all of whose numbers are finite.\<close>

fun isFinite :: "number \<Rightarrow> bool" where
  "isFinite (Fin r) = True"
| "isFinite _ = False"

definition isFiniteOpt :: "number option \<Rightarrow> bool" where
  "isFiniteOpt v = (case v of None \<Rightarrow> True | Some n \<Rightarrow> isFinite n)"

definition finiteTransaction :: "Transaction \<Rightarrow> bool" where
  "finiteTransaction t = (isFinite (amount t) \<and> isFiniteOpt (exchangeRateAtTime t))"

definition finiteDebt :: "Debt \<Rightarrow> bool" where
  "finiteDebt d =
     (isFinite (totalAmount d) \<and> isFinite (paidAmount d) \<and> isFiniteOpt (interestRate d) \<and>
      isFiniteOpt (minimumPayment d))"

definition finiteSavingsGoal :: "SavingsGoal \<Rightarrow> bool" where
  "finiteSavingsGoal g = (isFinite (targetAmount g) \<and> isFinite (currentAmount g))"

definition finiteAppData :: "AppData \<Rightarrow> bool" where
  "finiteAppData d =
     (list_all finiteTransaction (data_transactions d) \<and> list_all finiteDebt (debts d) \<and>
      list_all finiteSavingsGoal (savingsGoals d) \<and>
      isFinite (settings_exchangeRate (settings d)) \<and> isFiniteOpt (monthlyBudget (settings d)))"

text \<open>
  What a value comes back as from its JSON text: every number that is not finite is
  \<open>null\<close>. This describes the values without \<open>undefined\<close> whose objects have distinct
  property names, which \<open>wellFormed\<close> tells.
\<close>

fun nullified :: "jsvalue \<Rightarrow> jsvalue"
  and nullifiedElements :: "jsvalue list \<Rightarrow> jsvalue list"
  and nullifiedProperties :: "(jsstring \<times> jsvalue) list \<Rightarrow> (jsstring \<times> jsvalue) list" where
  "nullified JUndefined = JUndefined"
| "nullified JNull = JNull"
| "nullified (JBool b) = JBool b"
| "nullified (JNum n) = (if isFinite n then JNum n else JNull)"
| "nullified (JStr s) = JStr s"
| "nullified (JArr xs) = JArr (nullifiedElements xs)"
| "nullified (JObj ps) = JObj (nullifiedProperties ps)"
| "nullifiedElements [] = []"
| "nullifiedElements (x # xs) = nullified x # nullifiedElements xs"
| "nullifiedProperties [] = []"
| "nullifiedProperties (p # ps) = (fst p, nullified (snd p)) # nullifiedProperties ps"

fun wellFormed :: "jsvalue \<Rightarrow> bool"
  and wellFormedElements :: "jsvalue list \<Rightarrow> bool"
  and wellFormedProperties :: "(jsstring \<times> jsvalue) list \<Rightarrow> bool" where
  "wellFormed JUndefined = False"
| "wellFormed JNull = True"
| "wellFormed (JBool b) = True"
| "wellFormed (JNum n) = True"
| "wellFormed (JStr s) = True"
| "wellFormed (JArr xs) = wellFormedElements xs"
| "wellFormed (JObj ps) = (distinct (map fst ps) \<and> wellFormedProperties ps)"
| "wellFormedElements [] = True"
| "wellFormedElements (x # xs) = (wellFormed x \<and> wellFormedElements xs)"
| "wellFormedProperties [] = True"
| "wellFormedProperties (p # ps) = (wellFormed (snd p) \<and> wellFormedProperties ps)"

section \<open>Whole amounts\<close>

text \<open>
  The amounts on which the sums of the breakdown are exact: whole numbers whose
  magnitudes add up to less than \<open>2 ^ 53\<close>, so that every partial sum is a whole number
  that binary64 represents.
\<close>

fun isInteger :: "number \<Rightarrow> bool" where
  "isInteger (Fin r) = (r = of_int \<lfloor>r\<rfloor>)"
| "isInteger _ = False"

fun magnitude :: "number \<Rightarrow> real" where
  "magnitude (Fin r) = \<bar>r\<bar>"
| "magnitude _ = 0"

definition intOf :: "number \<Rightarrow> int" where
  "intOf x = (case x of Fin r \<Rightarrow> \<lfloor>r\<rfloor> | _ \<Rightarrow> 0)"

definition wholeAmounts :: "number list \<Rightarrow> bool" where
  "wholeAmounts xs = (list_all isInteger xs \<and> sum_list (map magnitude xs) < 2 ^ 53)"

section \<open>Notations of an amount\<close>

text \<open>
  The notations that the specification names for an amount, each with the number it
  denotes: digits with a decimal comma, digits with a decimal point, groups of three
  digits set off by points before a decimal comma, and plain digits; then a sign in
  front, and white space put in anywhere.
\<close>

definition isDigits :: "jsstring \<Rightarrow> bool" where
  "isDigits ds = (ds \<noteq> [] \<and> list_all isDigit ds)"

definition decimalValue :: "jsstring \<Rightarrow> jsstring \<Rightarrow> real" where
  "decimalValue ip fp = real (digitsValue ip) + real (digitsValue fp) / 10 ^ length fp"

inductive unsignedAmount :: "jsstring \<Rightarrow> real \<Rightarrow> bool" where
  commaDecimal:
    "isDigits ip \<Longrightarrow> isDigits fp \<Longrightarrow> unsignedAmount (ip @ js '','' @ fp) (decimalValue ip fp)"
| dotDecimal:
    "isDigits ip \<Longrightarrow> isDigits fp \<Longrightarrow> unsignedAmount (ip @ js ''.'' @ fp) (decimalValue ip fp)"
| mixedDecimal:
    "isDigits g \<Longrightarrow> length g \<le> 3 \<Longrightarrow> gs \<noteq> [] \<Longrightarrow>
     list_all (\<lambda>x. isDigits x \<and> length x = 3) gs \<Longrightarrow> isDigits fp \<Longrightarrow>
     unsignedAmount (g @ concat (map (\<lambda>x. js ''.'' @ x) gs) @ js '','' @ fp)
       (decimalValue (g @ concat gs) fp)"
| wholeNumber:
    "isDigits ip \<Longrightarrow> unsignedAmount ip (real (digitsValue ip))"

inductive signedAmount :: "jsstring \<Rightarrow> real \<Rightarrow> bool" where
  unsigned: "unsignedAmount s v \<Longrightarrow> signedAmount s v"
| minus: "unsignedAmount s v \<Longrightarrow> signedAmount (js ''-'' @ s) (- v)"
| plus: "unsignedAmount s v \<Longrightarrow> signedAmount (js ''+'' @ s) v"

inductive spaced :: "jsstring \<Rightarrow> jsstring \<Rightarrow> bool" where
  spaced_Nil: "spaced [] []"
| spaced_keep: "spaced s c \<Longrightarrow> \<not> isWhiteSpace x \<Longrightarrow> spaced (x # s) (x # c)"
| spaced_skip: "spaced s c \<Longrightarrow> isWhiteSpace w \<Longrightarrow> spaced (w # s) c"

definition amountString :: "jsstring \<Rightarrow> real \<Rightarrow> bool" where
  "amountString s v = (\<exists>c. spaced s c \<and> signedAmount c v)"

text \<open>The three beginnings of a signed amount: no sign, a minus, a plus.\<close>

definition signs :: "jsstring set" where
  "signs = {[], [0x2D], [0x2B]}"

section \<open>Sample data\<close>

text \<open>Concrete inputs at which the properties below are evaluated.\<close>

definition salary_tx :: Transaction where
  "salary_tx = \<lparr>id_tx = js ''1'', type = Income, amount = Fin 5000, currency = USD,
                category = js ''Salary'', description = js ''test'', date = js ''2025-01-10'',
                exchangeRateAtTime = None, recurring = None, recurringInterval = None\<rparr>"

definition food_tx :: Transaction where
  "food_tx = \<lparr>id_tx = js ''2'', type = Expense, amount = Fin 400, currency = PLN,
              category = js ''Food'', description = js ''test'', date = js ''2025-01-05'',
              exchangeRateAtTime = Some (Fin 4), recurring = None, recurringInterval = None\<rparr>"

definition january :: "jsstring \<Rightarrow> number \<times> number" where
  "january s = (Fin 0, Fin 2025)"

text \<open>
  Three expenses in USD whose amounts are the numbers that the literals \<open>0.3\<close>, \<open>0.2\<close>
  and \<open>0.1\<close> denote.
\<close>

definition loan_tx :: Transaction where
  "loan_tx = \<lparr>id_tx = js ''3'', type = Expense, amount = round64 0.3, currency = USD,
              category = js ''Debt Payment'', description = js ''loan'',
              date = js ''2025-01-02'', exchangeRateAtTime = None, recurring = None,
              recurringInterval = None\<rparr>"

definition shoes_tx :: Transaction where
  "shoes_tx = \<lparr>id_tx = js ''4'', type = Expense, amount = round64 0.2, currency = USD,
               category = js ''Shopping'', description = js ''shoes'',
               date = js ''2025-01-03'', exchangeRateAtTime = None, recurring = None,
               recurringInterval = None\<rparr>"

definition bread_tx :: Transaction where
  "bread_tx = \<lparr>id_tx = js ''5'', type = Expense, amount = round64 0.1, currency = USD,
               category = js ''Food'', description = js ''bread'',
               date = js ''2025-01-04'', exchangeRateAtTime = None, recurring = None,
               recurringInterval = None\<rparr>"

definition no_income :: BudgetBreakdown where
  "no_income = \<lparr>totalIncome = Fin 0, totalExpenses = Fin 700, needs = Fin 400, wants = Fin 200,
                savings = Fin (- 700), debtPayments = Fin 100, netBalance = Fin (- 700)\<rparr>"

definition carrefour_csv :: jsstring where
  "carrefour_csv = js ''Date,Amount,Description'' @ [0x0A] @ js ''2025-01-15,-50.00,Carrefour''"

definition skipped_csv :: jsstring where
  "skipped_csv = js ''Date,Amount,Description'' @ [0x0A] @ js ''2025-01-15,0,-50'' @ [0x0A] @
                 js ''2025-01-16,-20,Shop''"

definition infinity_csv :: jsstring where
  "infinity_csv = js ''Date,Amount,Description'' @ [0x0A] @ js ''2025-01-15,Infinity,x''"

definition infinite_tx :: Transaction where
  "infinite_tx = \<lparr>id_tx = js ''1'', type = Income, amount = PosInfinity, currency = PLN,
                  category = js ''Other Income'', description = js ''x'',
                  date = js ''2025-01-15'', exchangeRateAtTime = Some (Fin 4),
                  recurring = None, recurringInterval = None\<rparr>"

definition default_settings :: UserSettings where
  "default_settings = \<lparr>primaryCurrency = USD, settings_exchangeRate = Fin 4,
                        autoExchangeRate = True, monthlyBudget = None\<rparr>"

definition infinite_data :: AppData where
  "infinite_data = \<lparr>data_transactions = [infinite_tx], debts = [], savingsGoals = [],
                     settings = default_settings\<rparr>"

definition car_loan :: Debt where
  "car_loan = \<lparr>debt_id = js ''d1'', debt_name = js ''Car'', totalAmount = Fin 9000,
               paidAmount = Fin 1500, debt_currency = PLN, interestRate = Some (Fin 7.5),
               dueDate = None, minimumPayment = Some (Fin 300)\<rparr>"

definition holiday_goal :: SavingsGoal where
  "holiday_goal = \<lparr>goal_id = js ''g1'', goal_name = js ''Holiday'', targetAmount = Fin 2000,
                   currentAmount = Fin 250, goal_currency = USD,
                   deadline = Some (js ''2025-08-01'')\<rparr>"

definition sample_data :: AppData where
  "sample_data = \<lparr>data_transactions = [salary_tx, food_tx], debts = [car_loan],
                   savingsGoals = [holiday_goal],
                   settings = default_settings\<lparr>monthlyBudget := Some (Fin 3000)\<rparr>\<rparr>"

text \<open>Two stores: one that takes every write and one that is full.\<close>

definition empty_store :: Storage where
  "empty_store = \<lparr>items = Map.empty, accepts = (\<lambda>k t. True)\<rparr>"

definition full_store :: Storage where
  "full_store = \<lparr>items = Map.empty, accepts = (\<lambda>k t. False)\<rparr>"

section \<open>Verified properties\<close>

text \<open>The defining equations by which the model is evaluated on concrete inputs.\<close>

lemma bitLength_0: "bitLength 0 = 0"
  by (simp add: bitLength.simps)

lemma bitLength_1: "bitLength (Suc 0) = 1"
  by (simp add: bitLength.simps)

lemma bitLength_numeral: "bitLength (numeral k) = Suc (bitLength (numeral k div 2))"
  by (subst bitLength.simps) simp

lemmas float_defs = round64_def overflow64_def roundAt_def exponent64_def ilog2_def pow2_def
  roundHalfEven_def bitLength_0 bitLength_1 bitLength_numeral

lemmas string_defs = js_def trim_def isWhiteSpace_def isDigit_def toLowerCase_def toUpperCase_def
  lowerChars_def upperChars_def polishUpper_def polishLower_def specialLower_def
  specialUpper_def

lemmas number_defs = parsePKOAmount_def parseFloat_def parseUnsignedLiteral_def readSign_def
  exponentPart_def scale10_def digitsValue_def isNaN_def strict_eq_def float_defs

lemmas csv_defs = parseCSV_def detectDelimiter_def delimiters_def parseCSVLine_def
  findColumnIndex_def indexOf_def PKO_date_def PKO_amount_def PKO_description_def
  PKO_currency_def PKO_counterparty_def parseRow_def or_else_def elem_at_def
  detectCurrency_def parseDate_def matchISO_def matchDMY_def matchYMD_def isSep_def
  detectCategory_def CATEGORY_KEYWORDS_def

lemmas remap_defs = remapTransactions_def remapRow_def nullish_else_def elem_at_def
  detectCurrency_def parseDateFallback_def matchISO_def matchDMY_def matchYMD_def isSep_def
  detectCategoryFallback_def

lemma js_eq_iff: "js a = js b \<longleftrightarrow> a = b"
  by (simp add: js_def inj_of_char)

lemma js_point: "js ''.'' = [0x2E]"
  by (simp add: js_def)

lemma js_comma: "js '','' = [0x2C]"
  by (simp add: js_def)

lemma js_minus: "js ''-'' = [0x2D]"
  by (simp add: js_def)

lemma js_plus: "js ''+'' = [0x2B]"
  by (simp add: js_def)

subsection \<open>Binary64 rounding\<close>

text \<open>
  \<open>ilog2\<close> finds the power of two at or below a positive number, and a finite result of
  \<open>round64\<close> is within half a unit in the last place of the number rounded.
\<close>

lemma bitLength_bounds:
  "0 < n \<Longrightarrow> \<exists>k. bitLength n = Suc k \<and> 2 ^ k \<le> n \<and> n < 2 ^ Suc k"
proof (induction n rule: bitLength.induct)
  case (1 n)
  have bl: "bitLength n = Suc (bitLength (n div 2))"
    using 1(2) by (subst bitLength.simps) simp
  show ?case
  proof (cases "n div 2 = 0")
    case True
    then have "n = 1" using 1(2) by auto
    then show ?thesis by (simp add: bitLength.simps)
  next
    case False
    then obtain k where k: "bitLength (n div 2) = Suc k" "2 ^ k \<le> n div 2" "n div 2 < 2 ^ Suc k"
      using 1 by auto
    have "2 * 2 ^ k \<le> n" using k(2) by linarith
    moreover have "n < 2 * 2 ^ Suc k" using k(3) by linarith
    ultimately show ?thesis by (simp add: bl k(1))
  qed
qed

lemma ilog2_bounds:
  assumes "0 < x"
  shows "pow2 (ilog2 x) \<le> x \<and> x < pow2 (ilog2 x + 1)"
proof (cases "1 \<le> x")
  case True
  define n where "n = nat \<lfloor>x\<rfloor>"
  have rn: "real n = of_int \<lfloor>x\<rfloor>" using True by (simp add: n_def)
  have n: "0 < n" using True by (simp add: n_def)
  have lo: "real n \<le> x" unfolding rn by (rule of_int_floor_le)
  have hi: "x < real n + 1" unfolding rn by (rule real_of_int_floor_add_one_gt)
  from bitLength_bounds[OF n]
  obtain k where k: "bitLength n = Suc k" "2 ^ k \<le> n" "n < 2 ^ Suc k" by blast
  have "real (2 ^ k) \<le> real n" using k(2) by (rule of_nat_mono)
  then have "(2::real) ^ k \<le> real n" by (simp only: of_nat_power of_nat_numeral)
  then have l: "(2::real) ^ k \<le> x" using lo by linarith
  have "n + 1 \<le> 2 ^ Suc k" using k(3) by simp
  then have "real (n + 1) \<le> real (2 ^ Suc k)" by (rule of_nat_mono)
  then have "real n + 1 \<le> (2::real) ^ Suc k"
    by (simp only: of_nat_power of_nat_numeral of_nat_add of_nat_1)
  then have u: "x < (2::real) ^ Suc k" using hi by linarith
  have i: "ilog2 x = int k" using True k(1) by (simp add: ilog2_def n_def)
  have p1: "pow2 (int k) = 2 ^ k" by (simp add: pow2_def)
  have e: "nat (int k + 1) = Suc k" by simp
  have p2: "pow2 (int k + 1) = 2 ^ Suc k" unfolding pow2_def e by simp
  show ?thesis
    unfolding i p1 p2 using l u by simp
next
  case False
  define y where "y = 1 / x"
  define m where "m = nat (\<lceil>y\<rceil> - 1)"
  have y: "1 < y" using False assms by (simp add: y_def)
  then have c: "2 \<le> \<lceil>y\<rceil>" by linarith
  then have m: "0 < m" by (simp add: m_def)
  have rm: "real m = of_int \<lceil>y\<rceil> - 1" using c by (simp add: m_def)
  have lo: "real m < y" unfolding rm using ceiling_correct[of y] by linarith
  have hi: "y \<le> real m + 1" unfolding rm using ceiling_correct[of y] by linarith
  from bitLength_bounds[OF m]
  obtain k where k: "bitLength m = Suc k" "2 ^ k \<le> m" "m < 2 ^ Suc k" by blast
  have "real (2 ^ k) \<le> real m" using k(2) by (rule of_nat_mono)
  then have "(2::real) ^ k \<le> real m" by (simp only: of_nat_power of_nat_numeral)
  then have l: "(2::real) ^ k < y" using lo by linarith
  have "m + 1 \<le> 2 ^ Suc k" using k(3) by simp
  then have "real (m + 1) \<le> real (2 ^ Suc k)" by (rule of_nat_mono)
  then have "real m + 1 \<le> (2::real) ^ Suc k"
    by (simp only: of_nat_power of_nat_numeral of_nat_add of_nat_1)
  then have u: "y \<le> (2::real) ^ Suc k" using hi by linarith
  have i: "ilog2 x = - int (Suc k)" using False k(1) by (simp add: ilog2_def m_def y_def)
  have l': "x < 1 / 2 ^ k"
    using l assms by (simp add: y_def field_simps)
  have u': "1 / 2 ^ Suc k \<le> x"
    using u assms by (simp add: y_def field_simps)
  have pn: "pow2 (- int j) = 1 / 2 ^ j" for j
    by (cases "j = 0") (simp_all add: pow2_def)
  have p1: "pow2 (- int (Suc k)) = 1 / 2 ^ Suc k" by (rule pn)
  have "- int (Suc k) + 1 = - int k" by simp
  then have p2: "pow2 (- int (Suc k) + 1) = 1 / 2 ^ k" by (simp only: pn)
  show ?thesis
    unfolding i p1 p2 using l' u' by simp
qed


lemma pow2_pos: "0 < pow2 e"
  by (simp add: pow2_def)

lemma roundHalfEven_error: "\<bar>of_int (roundHalfEven q) - q\<bar> \<le> 1 / 2"
proof -
  define f where "f = (of_int \<lfloor>q\<rfloor> :: real)"
  have "f \<le> q" unfolding f_def by (rule of_int_floor_le)
  moreover have "q < f + 1" unfolding f_def by (rule real_of_int_floor_add_one_gt)
  ultimately show ?thesis
    unfolding roundHalfEven_def by (auto simp: f_def[symmetric] abs_if)
qed

lemma roundAt_error: "\<bar>roundAt e a - a\<bar> \<le> pow2 e / 2"
proof -
  let ?p = "pow2 e"
  have p: "0 < ?p" by (rule pow2_pos)
  have "roundAt e a - a = (of_int (roundHalfEven (a / ?p)) - a / ?p) * ?p"
    using p by (simp add: roundAt_def algebra_simps)
  then have "\<bar>roundAt e a - a\<bar> = \<bar>of_int (roundHalfEven (a / ?p)) - a / ?p\<bar> * ?p"
    using p by (simp add: abs_mult)
  also have "\<dots> \<le> (1 / 2) * ?p"
    using roundHalfEven_error[of "a / ?p"] p by (intro mult_right_mono) simp_all
  finally show ?thesis by simp
qed

lemma round64_error:
  assumes "round64 x = Fin r"
  shows "\<bar>r - x\<bar> \<le> pow2 (exponent64 \<bar>x\<bar>) / 2"
proof (cases "x = 0")
  case True
  then show ?thesis using assms pow2_pos[of "exponent64 0"] by (simp add: round64_def)
next
  case False
  let ?v = "roundAt (exponent64 \<bar>x\<bar>) \<bar>x\<bar>"
  have r: "r = (if x < 0 then - ?v else ?v)"
    using assms False by (simp add: round64_def overflow64_def split: if_splits)
  have "\<bar>r - x\<bar> = \<bar>?v - \<bar>x\<bar>\<bar>"
    unfolding r by (simp add: abs_if)
  then show ?thesis
    using roundAt_error[of "exponent64 \<bar>x\<bar>" "\<bar>x\<bar>"] by simp
qed

text \<open>Rounding keeps the sign.\<close>

lemma round64_minus: "round64 (- x) = - round64 x"
  by (simp add: round64_def overflow64_def)

text \<open>A whole number below \<open>2 ^ 53\<close> in magnitude is a binary64 value.\<close>

lemma bitLength_le: "n < 2 ^ k \<Longrightarrow> bitLength n \<le> k"
proof (induction k arbitrary: n)
  case 0
  then show ?case by (simp add: bitLength.simps)
next
  case (Suc k)
  then have "n div 2 < 2 ^ k" by auto
  then have "bitLength (n div 2) \<le> k" by (rule Suc.IH)
  then show ?case by (subst bitLength.simps) simp
qed

text \<open>The number that the literal \<open>0.1\<close> denotes, and the sum of \<open>0.1\<close> and \<open>0.2\<close>.\<close>

lemma round64_tenth: "round64 0.1 = Fin (3602879701896397 / 2 ^ 55)"
  by (simp add: float_defs)

lemma tenth_plus_fifth: "round64 0.1 + round64 0.2 = round64 0.30000000000000004"
  by (simp add: float_defs)

lemma roundHalfEven_of_int: "roundHalfEven (of_int k) = k"
  by (simp add: roundHalfEven_def)

lemma roundAt_multiple:
  assumes "e \<le> 0"
  shows "roundAt e (of_int k) = of_int k"
proof -
  have p: "pow2 e = 1 / 2 ^ nat (- e)"
    using assms by (cases "e = 0") (simp_all add: pow2_def)
  have "of_int k / pow2 e = (of_int (k * 2 ^ nat (- e)) :: real)"
    by (simp add: p)
  then have "roundHalfEven (of_int k / pow2 e) = k * 2 ^ nat (- e)"
    by (simp only: roundHalfEven_of_int)
  then show ?thesis
    by (simp add: roundAt_def p)
qed

lemma exponent64_of_int:
  assumes "0 < k" "k < 2 ^ 53"
  shows "exponent64 (of_int k) \<le> 0"
proof -
  have "nat k < 2 ^ 53" using assms by (simp add: nat_less_iff)
  then have "bitLength (nat k) \<le> 53" by (rule bitLength_le)
  moreover have "(1::real) \<le> of_int k" using assms by simp
  ultimately show ?thesis
    by (simp add: exponent64_def ilog2_def)
qed

lemma round64_of_int:
  assumes "\<bar>k\<bar> < 2 ^ 53"
  shows "round64 (of_int k) = Fin (of_int k)"
proof (cases "k = 0")
  case True
  then show ?thesis by (simp add: round64_def)
next
  case False
  then have pos: "0 < \<bar>k\<bar>" by simp
  have a: "\<bar>of_int k :: real\<bar> = of_int \<bar>k\<bar>" by simp
  have e: "exponent64 (of_int \<bar>k\<bar>) \<le> 0"
    using pos assms by (rule exponent64_of_int)
  have r: "roundAt (exponent64 (of_int \<bar>k\<bar>)) (of_int \<bar>k\<bar>) = of_int \<bar>k\<bar>"
    using e by (rule roundAt_multiple)
  have "(of_int \<bar>k\<bar> :: real) < 2 ^ 53"
    using assms by (metis of_int_less_numeral_power_cancel_iff)
  also have "\<dots> < (2::real) ^ 1024" by simp
  finally have small: "\<not> (2::real) ^ 1024 \<le> of_int \<bar>k\<bar>" by simp
  show ?thesis
    using False small unfolding round64_def a r overflow64_def
    by (auto simp: abs_if)
qed

lemma plus_of_int:
  "\<bar>i\<bar> + \<bar>j\<bar> < 2 ^ 53 \<Longrightarrow> Fin (of_int i) + Fin (of_int j) = Fin (of_int (i + j))"
  using round64_of_int[of "i + j"] by simp

lemma isInteger_intOf: "isInteger x \<Longrightarrow> x = Fin (of_int (intOf x))"
  by (cases x) (simp_all add: intOf_def)

lemma magnitude_intOf:
  assumes "isInteger x"
  shows "magnitude x = of_int \<bar>intOf x\<bar>"
proof -
  from assms have "x = Fin (of_int (intOf x))"
    by (rule isInteger_intOf)
  then have "magnitude x = \<bar>of_int (intOf x)\<bar>"
    by (metis magnitude.simps(1))
  then show ?thesis by simp
qed

lemma magnitudes_intOf:
  "list_all isInteger xs \<Longrightarrow>
   sum_list (map magnitude xs) = of_int (sum_list (map (\<lambda>x. \<bar>intOf x\<bar>) xs))"
  by (induction xs) (simp_all add: magnitude_intOf)

text \<open>The running sum of whole amounts is exact when the magnitudes stay below \<open>2 ^ 53\<close>.\<close>

lemma foldl_plus_of_int:
  "list_all isInteger xs \<Longrightarrow> \<bar>k\<bar> + sum_list (map (\<lambda>x. \<bar>intOf x\<bar>) xs) < 2 ^ 53 \<Longrightarrow>
   foldl (+) (Fin (of_int k)) xs = Fin (of_int (k + sum_list (map intOf xs)))"
proof (induction xs arbitrary: k)
  case Nil
  then show ?case by simp
next
  case (Cons x xs)
  let ?j = "intOf x"
  have x: "x = Fin (of_int ?j)"
    using Cons.prems(1) by (simp add: isInteger_intOf)
  have m: "0 \<le> sum_list (map (\<lambda>x. \<bar>intOf x\<bar>) xs)"
    by (rule sum_list_nonneg) auto
  have b: "\<bar>k\<bar> + \<bar>?j\<bar> + sum_list (map (\<lambda>x. \<bar>intOf x\<bar>) xs) < 2 ^ 53"
    using Cons.prems(2) by simp
  have kj: "\<bar>k\<bar> + \<bar>?j\<bar> < 2 ^ 53"
    using b m by linarith
  have "Fin (of_int k) + Fin (of_int ?j) = Fin (of_int (k + ?j))"
    using kj by (rule plus_of_int)
  then have step: "Fin (of_int k) + x = Fin (of_int (k + ?j))"
    using x by simp
  have "\<bar>k + ?j\<bar> + sum_list (map (\<lambda>x. \<bar>intOf x\<bar>) xs) < 2 ^ 53"
    using b by linarith
  then have "foldl (+) (Fin (of_int (k + ?j))) xs =
               Fin (of_int (k + ?j + sum_list (map intOf xs)))"
    using Cons.prems(1) by (intro Cons.IH) simp_all
  then show ?case
    by (simp only: foldl_Cons step list.map sum_list.Cons add.assoc)
qed

subsection \<open>Budget aggregation\<close>

text \<open>
  Each running total of the loop is the sum, taken from the left and rounded at every
  step, of the converted amounts of the transactions that the loop adds to it.
\<close>

lemma foldl_addTx_income:
  "accIncome (foldl (addTx pc g) acc ts) =
     foldl (+) (accIncome acc)
       (map (\<lambda>t. txAmount t pc g) (filter (\<lambda>t. type t = Income) ts))"
  by (induction ts arbitrary: acc) (simp_all add: addTx_def Let_def)

lemma foldl_addTx_expenses:
  "accExpenses (foldl (addTx pc g) acc ts) =
     foldl (+) (accExpenses acc)
       (map (\<lambda>t. txAmount t pc g) (filter (\<lambda>t. type t \<noteq> Income) ts))"
  by (induction ts arbitrary: acc) (simp_all add: addTx_def Let_def)

lemma foldl_addTx_debt:
  "accDebt (foldl (addTx pc g) acc ts) =
     foldl (+) (accDebt acc)
       (map (\<lambda>t. txAmount t pc g)
         (filter (\<lambda>t. type t \<noteq> Income \<and> category t = js ''Debt Payment'') ts))"
  by (induction ts arbitrary: acc) (simp_all add: addTx_def Let_def)

lemma foldl_addTx_needs:
  "accNeeds (foldl (addTx pc g) acc ts) =
     foldl (+) (accNeeds acc)
       (map (\<lambda>t. txAmount t pc g)
         (filter (\<lambda>t. type t \<noteq> Income \<and> category t \<noteq> js ''Debt Payment'' \<and>
                       category t \<in> NEEDS) ts))"
  by (induction ts arbitrary: acc) (simp_all add: addTx_def Let_def)

lemma foldl_addTx_wants:
  "accWants (foldl (addTx pc g) acc ts) =
     foldl (+) (accWants acc)
       (map (\<lambda>t. txAmount t pc g)
         (filter (\<lambda>t. type t \<noteq> Income \<and> category t \<noteq> js ''Debt Payment'' \<and>
                       category t \<notin> NEEDS) ts))"
  by (induction ts arbitrary: acc) (simp_all add: addTx_def Let_def)

text \<open>The three buckets divide the expenses among them.\<close>

lemma bucket_partition:
  fixes f :: "Transaction \<Rightarrow> 'a::comm_monoid_add"
  shows "sum_list (map f (filter (\<lambda>t. type t \<noteq> Income \<and> category t \<noteq> js ''Debt Payment'' \<and>
                                      category t \<in> NEEDS) ts)) +
         sum_list (map f (filter (\<lambda>t. type t \<noteq> Income \<and> category t \<noteq> js ''Debt Payment'' \<and>
                                      category t \<notin> NEEDS) ts)) +
         sum_list (map f (filter (\<lambda>t. type t \<noteq> Income \<and>
                                      category t = js ''Debt Payment'') ts)) =
         sum_list (map f (filter (\<lambda>t. type t \<noteq> Income) ts))"
  by (induction ts) (auto simp: ac_simps)

lemma whole_sublist:
  assumes "list_all isInteger (map a (filter P ts))" "\<And>t. Q t \<Longrightarrow> P t"
  shows "list_all isInteger (map a (filter Q ts))"
  using assms by (auto simp: list_all_iff)

lemma foldl_whole:
  assumes "list_all isInteger xs" "sum_list (map (\<lambda>x. \<bar>intOf x\<bar>) xs) < 2 ^ 53"
  shows "foldl (+) (Fin 0) xs = Fin (of_int (sum_list (map intOf xs)))"
  using foldl_plus_of_int[of xs 0] assms by simp

lemma whole_buckets:
  fixes a :: "Transaction \<Rightarrow> number" and ts :: "Transaction list"
  assumes w: "wholeAmounts (map a (filter (\<lambda>t. type t \<noteq> Income) ts))"
  shows "foldl (+) (Fin 0) (map a (filter (\<lambda>t. type t \<noteq> Income \<and>
             category t \<noteq> js ''Debt Payment'' \<and> category t \<in> NEEDS) ts)) +
         foldl (+) (Fin 0) (map a (filter (\<lambda>t. type t \<noteq> Income \<and>
             category t \<noteq> js ''Debt Payment'' \<and> category t \<notin> NEEDS) ts)) +
         foldl (+) (Fin 0) (map a (filter (\<lambda>t. type t \<noteq> Income \<and>
             category t = js ''Debt Payment'') ts)) =
         foldl (+) (Fin 0) (map a (filter (\<lambda>t. type t \<noteq> Income) ts))"
proof -
  let ?E = "\<lambda>t. type t \<noteq> Income"
  let ?N = "\<lambda>t. type t \<noteq> Income \<and> category t \<noteq> js ''Debt Payment'' \<and> category t \<in> NEEDS"
  let ?W = "\<lambda>t. type t \<noteq> Income \<and> category t \<noteq> js ''Debt Payment'' \<and> category t \<notin> NEEDS"
  let ?D = "\<lambda>t. type t \<noteq> Income \<and> category t = js ''Debt Payment''"
  define s where "s P = sum_list (map (\<lambda>t. intOf (a t)) (filter P ts))" for P
  define m where "m P = sum_list (map (\<lambda>t. \<bar>intOf (a t)\<bar>) (filter P ts))" for P
  have ints: "list_all isInteger (map a (filter ?E ts))"
    using w by (simp add: wholeAmounts_def)
  have "sum_list (map magnitude (map a (filter ?E ts))) = of_int (m ?E)"
    using magnitudes_intOf[OF ints] by (simp add: m_def comp_def)
  then have "(of_int (m ?E) :: real) < 2 ^ 53"
    using w by (simp add: wholeAmounts_def)
  then have mE: "m ?E < 2 ^ 53"
    by (metis of_int_less_numeral_power_cancel_iff)
  have part: "s ?N + s ?W + s ?D = s ?E"
    unfolding s_def by (rule bucket_partition[of "\<lambda>t. intOf (a t)"])
  have mpart: "m ?N + m ?W + m ?D = m ?E"
    unfolding m_def by (rule bucket_partition[of "\<lambda>t. \<bar>intOf (a t)\<bar>"])
  have nonneg: "0 \<le> m P" for P
    unfolding m_def by (rule sum_list_nonneg) auto
  have bound: "\<bar>s P\<bar> \<le> m P" for P
    unfolding s_def m_def using sum_list_abs[of "map (\<lambda>t. intOf (a t)) (filter P ts)"]
    by (simp add: comp_def)
  have exact: "foldl (+) (Fin 0) (map a (filter P ts)) = Fin (of_int (s P))"
    if sub: "\<And>t. P t \<Longrightarrow> ?E t" and le: "m P \<le> m ?E" for P
  proof -
    have "list_all isInteger (map a (filter P ts))"
      using ints sub by (rule whole_sublist)
    moreover have "sum_list (map (\<lambda>x. \<bar>intOf x\<bar>) (map a (filter P ts))) < 2 ^ 53"
      using le mE by (simp add: m_def comp_def)
    ultimately show ?thesis
      using foldl_whole[of "map a (filter P ts)"] by (simp add: s_def comp_def)
  qed
  have eN: "foldl (+) (Fin 0) (map a (filter ?N ts)) = Fin (of_int (s ?N))"
    using mpart nonneg[of ?W] nonneg[of ?D] by (intro exact) auto
  have eW: "foldl (+) (Fin 0) (map a (filter ?W ts)) = Fin (of_int (s ?W))"
    using mpart nonneg[of ?N] nonneg[of ?D] by (intro exact) auto
  have eD: "foldl (+) (Fin 0) (map a (filter ?D ts)) = Fin (of_int (s ?D))"
    using mpart nonneg[of ?N] nonneg[of ?W] by (intro exact) auto
  have eE: "foldl (+) (Fin 0) (map a (filter ?E ts)) = Fin (of_int (s ?E))"
    by (intro exact) auto
  have "\<bar>s ?N\<bar> + \<bar>s ?W\<bar> < 2 ^ 53"
    using bound[of ?N] bound[of ?W] nonneg[of ?D] mpart mE by linarith
  then have nw: "Fin (of_int (s ?N)) + Fin (of_int (s ?W)) = Fin (of_int (s ?N + s ?W))"
    by (rule plus_of_int)
  have "\<bar>s ?N + s ?W\<bar> + \<bar>s ?D\<bar> < 2 ^ 53"
    using bound[of ?N] bound[of ?W] bound[of ?D] mpart mE by linarith
  then have nwd: "Fin (of_int (s ?N + s ?W)) + Fin (of_int (s ?D)) =
                    Fin (of_int (s ?N + s ?W + s ?D))"
    by (rule plus_of_int)
  show ?thesis
    unfolding eN eW eD eE nw nwd part ..
qed

text \<open>
  Claim C2 asks that \<open>needs + wants + debtPayments = totalExpenses\<close> for every transaction
  list. The four sums are rounded at every addition, and the total adds the amounts in
  another order than the buckets do. With a debt payment of 0.3, a purchase of 0.2 in
  category "Shopping" and one of 0.1 in category "Food", all in the primary currency,
  the total is 0.6 and the three buckets add up to 0.6000000000000001.
\<close>

theorem getMonthlyBreakdown_buckets_rounding:
  "let b = getMonthlyBreakdown january [loan_tx, shoes_tx, bread_tx] (Fin 0) (Fin 2025) USD
             (Fin 4)
   in totalExpenses b = round64 0.6 \<and>
      needs b + wants b + debtPayments b = round64 0.6000000000000001 \<and>
      needs b + wants b + debtPayments b \<noteq> totalExpenses b"
  by (simp add: Let_def getMonthlyBreakdown_def addTx_def loan_tx_def shoes_tx_def bread_tx_def
      january_def inMonth_def strict_eq_def txAmount_def txRate_def NEEDS_def WANTS_def js_def
      float_defs)

text \<open>
  Claim C2, amended. For every transaction list, month, year, primary currency and
  fallback rate (and whatever the host's calendar makes of the dates), every expense of
  the window is added to \<open>totalExpenses\<close> and to exactly one bucket: \<open>debtPayments\<close> takes
  those of category "Debt Payment", \<open>needs\<close> the others whose category is in the needs
  set, and \<open>wants\<close> all the rest, "Other" and any unknown category included. Each of the
  four is the sum of its amounts from the left, rounded at every step. The three buckets
  divide the expenses among them: whatever real quantity \<open>f\<close> is read off a transaction,
  its exact sums over the three buckets add up to its exact sum over the expenses. When
  the converted amounts of the expenses are whole numbers whose magnitudes total less
  than \<open>2 ^ 53\<close>, the breakdown satisfies \<open>needs + wants + debtPayments = totalExpenses\<close>.
\<close>

theorem getMonthlyBreakdown_buckets:
  "let b = getMonthlyBreakdown cal ts month year pc g;
       window = filter (inMonth cal month year) ts;
       a = (\<lambda>t. txAmount t pc g)
   in totalExpenses b = foldl (+) (Fin 0) (map a (filter (\<lambda>t. type t \<noteq> Income) window)) \<and>
      debtPayments b =
        foldl (+) (Fin 0) (map a (filter (\<lambda>t. type t \<noteq> Income \<and>
                                      category t = js ''Debt Payment'') window)) \<and>
      needs b =
        foldl (+) (Fin 0) (map a (filter (\<lambda>t. type t \<noteq> Income \<and>
                                      category t \<noteq> js ''Debt Payment'' \<and>
                                      category t \<in> NEEDS) window)) \<and>
      wants b =
        foldl (+) (Fin 0) (map a (filter (\<lambda>t. type t \<noteq> Income \<and>
                                      category t \<noteq> js ''Debt Payment'' \<and>
                                      category t \<notin> NEEDS) window)) \<and>
      sum_list (map f (filter (\<lambda>t. type t \<noteq> Income \<and>
                                  category t \<noteq> js ''Debt Payment'' \<and>
                                  category t \<in> NEEDS) window)) +
      sum_list (map f (filter (\<lambda>t. type t \<noteq> Income \<and>
                                  category t \<noteq> js ''Debt Payment'' \<and>
                                  category t \<notin> NEEDS) window)) +
      sum_list (map f (filter (\<lambda>t. type t \<noteq> Income \<and>
                                  category t = js ''Debt Payment'') window)) =
      (sum_list (map f (filter (\<lambda>t. type t \<noteq> Income) window)) :: real) \<and>
      (wholeAmounts (map a (filter (\<lambda>t. type t \<noteq> Income) window)) \<longrightarrow>
         needs b + wants b + debtPayments b = totalExpenses b)"
proof -
  let ?z = "\<lparr>accIncome = Fin 0, accExpenses = Fin 0, accNeeds = Fin 0, accWants = Fin 0,
             accDebt = Fin 0\<rparr>"
  let ?w = "filter (inMonth cal month year) ts"
  let ?r = "foldl (addTx pc g) ?z ?w"
  let ?a = "\<lambda>t. txAmount t pc g"
  have e: "accExpenses ?r =
      foldl (+) (Fin 0) (map ?a (filter (\<lambda>t. type t \<noteq> Income) ?w))"
    using foldl_addTx_expenses[of pc g ?z ?w] by simp
  have d: "accDebt ?r =
      foldl (+) (Fin 0) (map ?a
        (filter (\<lambda>t. type t \<noteq> Income \<and> category t = js ''Debt Payment'') ?w))"
    using foldl_addTx_debt[of pc g ?z ?w] by simp
  have n: "accNeeds ?r =
      foldl (+) (Fin 0) (map ?a
        (filter (\<lambda>t. type t \<noteq> Income \<and> category t \<noteq> js ''Debt Payment'' \<and>
                      category t \<in> NEEDS) ?w))"
    using foldl_addTx_needs[of pc g ?z ?w] by simp
  have w: "accWants ?r =
      foldl (+) (Fin 0) (map ?a
        (filter (\<lambda>t. type t \<noteq> Income \<and> category t \<noteq> js ''Debt Payment'' \<and>
                      category t \<notin> NEEDS) ?w))"
    using foldl_addTx_wants[of pc g ?z ?w] by simp
  have "accNeeds ?r + accWants ?r + accDebt ?r = accExpenses ?r"
    if "wholeAmounts (map ?a (filter (\<lambda>t. type t \<noteq> Income) ?w))"
    unfolding e d n w using that by (rule whole_buckets)
  then show ?thesis
    unfolding Let_def getMonthlyBreakdown_def
    using e d n w bucket_partition[of f ?w] by (simp del: filter_filter)
qed

text \<open>
  The statement at a month with a salary, a food expense, an expense of category "Other"
  and a debt payment, each expense of 400 PLN at its own rate 4: the three buckets hold
  100 each and the total is 300.
\<close>

theorem getMonthlyBreakdown_buckets_witness:
  "let b = getMonthlyBreakdown january
             [salary_tx, food_tx, food_tx\<lparr>category := js ''Other''\<rparr>,
              food_tx\<lparr>category := js ''Debt Payment''\<rparr>] (Fin 0) (Fin 2025) USD (Fin 5)
   in wholeAmounts [Fin 100, Fin 100, Fin 100] \<and>
      needs b = Fin 100 \<and> wants b = Fin 100 \<and> debtPayments b = Fin 100 \<and>
      totalExpenses b = Fin 300 \<and> needs b + wants b + debtPayments b = totalExpenses b"
  using getMonthlyBreakdown_buckets[where cal = january and month = "Fin 0"
      and year = "Fin 2025" and pc = USD and g = "Fin 5" and f = "\<lambda>t. 1"
      and ts = "[salary_tx, food_tx, food_tx\<lparr>category := js ''Other''\<rparr>,
        food_tx\<lparr>category := js ''Debt Payment''\<rparr>]"]
  by (simp add: Let_def salary_tx_def food_tx_def january_def inMonth_def strict_eq_def
      txAmount_def txRate_def NEEDS_def js_def wholeAmounts_def float_defs)

text \<open>
  Claim C5. The totals of the breakdown are the sums, over the income and over the
  expense transactions of the window, of the amounts converted with the transaction's
  own \<open>exchangeRateAtTime\<close> when it carries one and with the supplied rate only when it
  carries none. The sums are taken from the left, as the loop takes them. Conversion is
  the identity within one currency, multiplies by the rate from USD to PLN and divides
  by it from PLN to USD.
\<close>

theorem getMonthlyBreakdown_rate:
  "totalIncome (getMonthlyBreakdown cal ts month year pc g) =
     foldl (+) (Fin 0)
       (map (\<lambda>t. convertCurrency (amount t) (currency t) pc
                    (case exchangeRateAtTime t of Some r \<Rightarrow> r | None \<Rightarrow> g))
            (filter (\<lambda>t. type t = Income) (filter (inMonth cal month year) ts))) \<and>
   totalExpenses (getMonthlyBreakdown cal ts month year pc g) =
     foldl (+) (Fin 0)
       (map (\<lambda>t. convertCurrency (amount t) (currency t) pc
                    (case exchangeRateAtTime t of Some r \<Rightarrow> r | None \<Rightarrow> g))
            (filter (\<lambda>t. type t \<noteq> Income) (filter (inMonth cal month year) ts))) \<and>
   convertCurrency a c c r = a \<and>
   convertCurrency a USD PLN r = a * r \<and>
   convertCurrency a PLN USD r = a / r"
  unfolding getMonthlyBreakdown_def Let_def
  by (simp add: foldl_addTx_income foldl_addTx_expenses txAmount_def txRate_def
      del: filter_filter)

text \<open>
  The scenario of the specification: an income of 5000 USD and an expense of 400 PLN
  that carries the rate 4, in USD with the supplied rate 5. The expense counts as 100.
\<close>

theorem getMonthlyBreakdown_rate_witness:
  "totalExpenses (getMonthlyBreakdown january [salary_tx, food_tx] (Fin 0) (Fin 2025) USD (Fin 5))
     = Fin 100 \<and>
   totalIncome (getMonthlyBreakdown january [salary_tx, food_tx] (Fin 0) (Fin 2025) USD (Fin 5))
     = Fin 5000"
  using getMonthlyBreakdown_rate[of january "[salary_tx, food_tx]" "Fin 0" "Fin 2025" USD "Fin 5"]
  by (simp add: salary_tx_def food_tx_def january_def inMonth_def strict_eq_def float_defs)

subsection \<open>Savings advice\<close>

text \<open>
  Claim C6. A breakdown whose \<open>totalIncome\<close> is 0 gets the fixed advice: optimal rate 20,
  optimal amount 0, current rate 0, the three percentages 0, status
  \<open>needs_attention\<close> and the one tip that asks for the income, whatever the other fields
  of the breakdown are. The branch returns before any division.
\<close>

theorem getSavingsAdvice_zero_income:
  "totalIncome b = Fin 0 \<Longrightarrow>
   getSavingsAdvice toFixed b =
     \<lparr>optimalSavingsRate = Fin 20, optimalSavingsAmount = Fin 0, currentSavingsRate = Fin 0,
      needsPercent = Fin 0, wantsPercent = Fin 0, savingsPercent = Fin 0,
      status = needs_attention,
      tips = [js ''Start by tracking your income to get personalized advice.'']\<rparr>"
  by (simp add: getSavingsAdvice_def strict_eq_def)

theorem getSavingsAdvice_zero_income_witness:
  "totalIncome no_income = Fin 0 \<and>
   status (getSavingsAdvice (\<lambda>x n. []) no_income) = needs_attention \<and>
   optimalSavingsRate (getSavingsAdvice (\<lambda>x n. []) no_income) = Fin 20 \<and>
   length (tips (getSavingsAdvice (\<lambda>x n. []) no_income)) = 1"
proof -
  have h: "totalIncome no_income = Fin 0"
    by (simp add: no_income_def)
  show ?thesis
    using h getSavingsAdvice_zero_income[OF h, of "\<lambda>x n. []"] by simp
qed

text \<open>
  Claim C10. The advice for every breakdown has at least one tip: the zero-income branch
  returns one, and each of the four status branches starts its list with a base tip.
\<close>

theorem getSavingsAdvice_tips_nonempty:
  "tips (getSavingsAdvice toFixed b) \<noteq> []"
  by (simp add: getSavingsAdvice_def Let_def split: prod.split)

subsection \<open>Delimiter detection\<close>

lemma split_str_nonempty: "split_str d s \<noteq> []"
  by (induction s) (auto split: list.splits)

text \<open>The field count of a line is one more than the occurrences of the separator.\<close>

lemma length_split_str: "length (split_str d s) = Suc (length (filter (\<lambda>c. c = d) s))"
  by (induction s) (auto split: list.splits simp: split_str_nonempty)

text \<open>
  Claim C7. The delimiter detected in a first line is one of comma, semicolon, tab and
  pipe; no candidate splits the line into more fields than it does; every candidate
  listed before it splits the line into strictly fewer fields, so that the earlier one
  wins a tie; and the comma is chosen whenever no candidate has more fields than it.
\<close>

theorem detectDelimiter_first_maximum:
  "detectDelimiter l \<in> set delimiters \<and>
   (\<forall>d\<in>set delimiters. length (split_str d l) \<le> length (split_str (detectDelimiter l) l)) \<and>
   (\<forall>d\<in>set (takeWhile (\<lambda>x. x \<noteq> detectDelimiter l) delimiters).
       length (split_str d l) < length (split_str (detectDelimiter l) l)) \<and>
   ((\<forall>d\<in>set delimiters. length (split_str d l) \<le> length (split_str 0x2C l))
      \<longrightarrow> detectDelimiter l = 0x2C)"
proof -
  have pos: "0 < length (split_str 0x2C l)"
    by (simp add: length_split_str)
  show ?thesis
    using pos unfolding detectDelimiter_def delimiters_def
    by (simp add: Let_def)
qed

text \<open>
  In \<open>a;b;c,d\<close> the semicolon gives three fields and the comma, listed before it, two;
  in \<open>a,b;c\<close> both give two and the comma is chosen.
\<close>

theorem detectDelimiter_first_maximum_witness:
  "detectDelimiter (js ''a;b;c,d'') = 0x3B \<and>
   0x2C \<in> set (takeWhile (\<lambda>x. x \<noteq> detectDelimiter (js ''a;b;c,d'')) delimiters) \<and>
   length (split_str 0x2C (js ''a;b;c,d'')) < length (split_str 0x3B (js ''a;b;c,d'')) \<and>
   detectDelimiter (js ''a,b;c'') = 0x2C"
  using detectDelimiter_first_maximum[of "js ''a;b;c,d''"]
  by (simp add: js_def delimiters_def detectDelimiter_def Let_def)

subsection \<open>Date normalization\<close>

lemma dropWhile_hd: "dropWhile P xs \<noteq> [] \<Longrightarrow> \<not> P (hd (dropWhile P xs))"
  by (metis hd_dropWhile)

lemma last_dropWhile: "dropWhile P xs \<noteq> [] \<Longrightarrow> last (dropWhile P xs) = last xs"
  by (induction xs) (auto split: if_splits)

lemma trim_noOuterSpace_id: "noOuterSpace s \<Longrightarrow> trim s = s"
  by (cases s) (auto simp: noOuterSpace_def trim_def dropWhile_eq_self_iff hd_rev split: if_splits)

lemma noOuterSpace_trim: "noOuterSpace (trim s)"
proof -
  let ?a = "dropWhile isWhiteSpace s"
  let ?b = "dropWhile isWhiteSpace (rev ?a)"
  show ?thesis
  proof (cases "?b = []")
    case True
    then show ?thesis by (simp add: noOuterSpace_def trim_def)
  next
    case False
    have a: "?a \<noteq> []"
    proof
      assume "?a = []"
      then have "?b = []" by (simp only: rev.simps dropWhile.simps)
      with False show False by simp
    qed
    have "last ?b = last (rev ?a)" using False by (rule last_dropWhile)
    also have "\<dots> = hd ?a" using a by (simp add: last_rev)
    finally have "\<not> isWhiteSpace (last ?b)" using a by (simp add: dropWhile_hd)
    moreover have "\<not> isWhiteSpace (hd ?b)" using False by (rule dropWhile_hd)
    ultimately show ?thesis using False by (simp add: noOuterSpace_def trim_def hd_rev last_rev)
  qed
qed

lemma trim_idem: "trim (trim s) = trim s"
  by (simp add: noOuterSpace_trim trim_noOuterSpace_id)

lemma digit_not_space: "isDigit c \<Longrightarrow> \<not> isWhiteSpace c"
  by (auto simp: isDigit_def isWhiteSpace_def)

lemma matchISO_noOuterSpace: "matchISO t \<Longrightarrow> noOuterSpace t"
proof -
  assume m: "matchISO t"
  then have len: "length t = 10" by (simp add: matchISO_def)
  then have ne: "t \<noteq> []" by auto
  from m have "list_all isDigit (take 4 t)" by (simp add: matchISO_def)
  then have "isDigit (hd (take 4 t))" using len by (cases t) auto
  then have h: "isDigit (hd t)" using ne by (cases t) auto
  from m have d: "list_all isDigit (drop 8 t)" by (simp add: matchISO_def)
  have "drop 8 t \<noteq> []" using len by simp
  then have "isDigit (last (drop 8 t))" using d by (metis last_in_set list_all_iff)
  then have l: "isDigit (last t)" using len by simp
  show ?thesis using h l ne by (simp add: noOuterSpace_def digit_not_space)
qed

lemma matchISO_build:
  "length u = 4 \<Longrightarrow> length v = 2 \<Longrightarrow> length w = 2 \<Longrightarrow> list_all isDigit u \<Longrightarrow>
   list_all isDigit v \<Longrightarrow> list_all isDigit w \<Longrightarrow> matchISO (u @ js ''-'' @ v @ js ''-'' @ w)"
  by (simp add: matchISO_def js_def nth_append)

lemma parseDate_ISO: "matchISO t \<Longrightarrow> parseDate t = t"
  by (simp add: parseDate_def Let_def trim_noOuterSpace_id matchISO_noOuterSpace)

text \<open>
  Claim C4. \<open>parseDate\<close> is idempotent on every string; a string of the shape
  YYYY-MM-DD is returned as it is; and the day-first dates \<open>15.01.2025\<close>, \<open>15-01-2025\<close>
  and \<open>15/01/2025\<close> all become \<open>2025-01-15\<close>.
\<close>

theorem parseDate_idempotent:
  "parseDate (parseDate s) = parseDate s \<and>
   (matchISO s \<longrightarrow> parseDate s = s) \<and>
   parseDate (js ''15.01.2025'') = js ''2025-01-15'' \<and>
   parseDate (js ''15-01-2025'') = js ''2025-01-15'' \<and>
   parseDate (js ''15/01/2025'') = js ''2025-01-15''"
proof -
  let ?t = "trim s"
  have idem: "parseDate (parseDate s) = parseDate s"
  proof -
    consider (iso) "matchISO ?t"
      | (dmy) "\<not> matchISO ?t" "matchDMY ?t"
      | (ymd) "\<not> matchISO ?t" "\<not> matchDMY ?t" "matchYMD ?t"
      | (other) "\<not> matchISO ?t" "\<not> matchDMY ?t" "\<not> matchYMD ?t"
      by blast
    then show ?thesis
    proof cases
      case iso
      then have "parseDate s = ?t" by (simp add: parseDate_def Let_def)
      with iso show ?thesis by (simp add: parseDate_ISO)
    next
      case dmy
      then have r: "parseDate s =
          drop 6 ?t @ js ''-'' @ take 2 (drop 3 ?t) @ js ''-'' @ take 2 ?t"
        by (simp add: parseDate_def Let_def)
      have "matchISO (drop 6 ?t @ js ''-'' @ take 2 (drop 3 ?t) @ js ''-'' @ take 2 ?t)"
        using dmy(2) by (intro matchISO_build) (simp_all add: matchDMY_def)
      with r show ?thesis by (simp add: parseDate_ISO)
    next
      case ymd
      then have r: "parseDate s =
          take 4 ?t @ js ''-'' @ take 2 (drop 5 ?t) @ js ''-'' @ drop 8 ?t"
        by (simp add: parseDate_def Let_def)
      have "matchISO (take 4 ?t @ js ''-'' @ take 2 (drop 5 ?t) @ js ''-'' @ drop 8 ?t)"
        using ymd(3) by (intro matchISO_build) (simp_all add: matchYMD_def)
      with r show ?thesis by (simp add: parseDate_ISO)
    next
      case other
      then have "parseDate s = ?t" by (simp add: parseDate_def Let_def)
      moreover have "parseDate ?t = ?t"
        using other by (simp add: parseDate_def Let_def trim_idem)
      ultimately show ?thesis by simp
    qed
  qed
  have examples: "parseDate (js ''15.01.2025'') = js ''2025-01-15''"
    "parseDate (js ''15-01-2025'') = js ''2025-01-15''"
    "parseDate (js ''15/01/2025'') = js ''2025-01-15''"
    by (simp_all add: parseDate_def js_def trim_def isWhiteSpace_def matchISO_def matchDMY_def
        isSep_def isDigit_def Let_def)
  show ?thesis using idem examples by (simp add: parseDate_ISO)
qed

text \<open>
  A canonical date is kept, and a year-first date with points and outer white space is
  a fixed point after one normalization.
\<close>

theorem parseDate_idempotent_witness:
  "matchISO (js ''2025-01-15'') \<and>
   parseDate (js ''2025-01-15'') = js ''2025-01-15'' \<and>
   parseDate (js '' 2025.01.15 '') = js ''2025-01-15'' \<and>
   parseDate (parseDate (js '' 2025.01.15 '')) = js ''2025-01-15''"
proof -
  have m: "matchISO (js ''2025-01-15'')"
    by (simp add: matchISO_def js_def isDigit_def)
  have y: "parseDate (js '' 2025.01.15 '') = js ''2025-01-15''"
    by (simp add: parseDate_def js_def trim_def isWhiteSpace_def matchISO_def matchDMY_def
        matchYMD_def isSep_def isDigit_def Let_def)
  show ?thesis
    using m y parseDate_idempotent[of "js ''2025-01-15''"]
      parseDate_idempotent[of "js '' 2025.01.15 ''"]
    by simp
qed

subsection \<open>Manual column mapping\<close>

lemma remapRow_raw: "remapRow mp tx = Some tx' \<Longrightarrow> raw tx' = raw tx"
  by (auto simp: remapRow_def Let_def split: if_splits)

lemma length_map_filter: "length (List.map_filter f xs) \<le> length xs"
  by (simp add: List.map_filter_def)

lemma subseq_map_filter:
  assumes "\<And>x y. f x = Some y \<Longrightarrow> h y = h x"
  shows "subseq (map h (List.map_filter f xs)) (map h xs)"
proof (induction xs)
  case Nil
  show ?case by (simp add: List.map_filter_def)
next
  case (Cons x xs)
  show ?case
  proof (cases "f x")
    case None
    with Cons show ?thesis by (auto intro: list_emb_Cons)
  next
    case (Some y)
    with Cons assms[OF Some] show ?thesis by simp
  qed
qed

text \<open>
  Claim C9. For every parse result and every column mapping, the remapped list is no
  longer than the parsed list, and the raw rows of the remapped transactions are, in
  order, raw rows of parsed transactions: remapping re-derives or drops entries of the
  parsed list and never brings back a row that the parse skipped.
\<close>

theorem remapTransactions_no_recovery:
  "length (remapTransactions result mp) \<le> length (transactions result) \<and>
   subseq (map raw (remapTransactions result mp)) (map raw (transactions result))"
  unfolding remapTransactions_def
  by (simp add: length_map_filter subseq_map_filter remapRow_raw)


text \<open>
  A file whose first data row has the amount 0 in the amount column and -50 in the next
  column: the parse skips the row, and a mapping that takes the next column for the
  amount does not bring it back (it drops the other row as well).
\<close>

lemma parseCSV_skipped:
  "transactions (parseCSV skipped_csv) =
     [\<lparr>p_date = js ''2025-01-16'', p_amount = Fin 20, p_description = js ''Shop'',
       p_currency = PLN, counterparty = [], suggestedCategory = js ''Other'',
       suggestedType = Expense, raw = [js ''2025-01-16'', js ''-20'', js ''Shop'']\<rparr>]"
  by (simp add: skipped_csv_def csv_defs number_defs string_defs Let_def)

theorem remapTransactions_no_recovery_witness:
  "length (transactions (parseCSV skipped_csv)) = 1 \<and>
   remapTransactions (parseCSV skipped_csv)
     \<lparr>date_col = 0, amount_col = 2, description_col = 1, currency_col = - 1,
      counterparty_col = - 1\<rparr> = []"
proof -
  have "remapTransactions (parseCSV skipped_csv)
     \<lparr>date_col = 0, amount_col = 2, description_col = 1, currency_col = - 1,
      counterparty_col = - 1\<rparr> = []"
    unfolding remapTransactions_def parseCSV_skipped
    by (simp add: remap_defs number_defs string_defs Let_def)
  then show ?thesis
    using remapTransactions_no_recovery[of "parseCSV skipped_csv"
        "\<lparr>date_col = 0, amount_col = 2, description_col = 1, currency_col = - 1,
          counterparty_col = - 1\<rparr>"]
    by (simp add: parseCSV_skipped)
qed

text \<open>
  The remap path against the parse path. With the mapping that the parse detected,
  remapping gives back every parsed transaction with the same date, amount,
  description, currency, counterparty, type and raw row; the suggested category alone
  is derived anew, by \<open>detectCategoryFallback\<close>.
\<close>

lemma or_else_empty: "or_else v [] = nullish_else v []"
  by (simp add: or_else_def nullish_else_def split: option.split)

lemma parsePKOAmount_zero: "parsePKOAmount (js ''0'') = Fin 0"
  by (simp add: number_defs string_defs Let_def)

lemma parseDateFallback_eq: "parseDateFallback s = parseDate s"
  by (simp add: parseDateFallback_def parseDate_def)

lemma remapRow_alt:
  "remapRow mp tx =
     (let amt = parsePKOAmount (nullish_else (elem_at (raw tx) (amount_col mp)) (js ''0''))
      in if isNaN amt \<or> strict_eq amt (Fin 0) then None
         else
           (let descr = nullish_else (elem_at (raw tx) (description_col mp)) [];
                cp = (if counterparty_col mp \<ge> 0
                      then nullish_else (elem_at (raw tx) (counterparty_col mp)) [] else []);
                fullDesc = (if cp \<noteq> [] then cp @ js '' - '' @ descr else descr);
                cat = detectCategoryFallback fullDesc
            in Some \<lparr>p_date = parseDate (nullish_else (elem_at (raw tx) (date_col mp)) []),
                     p_amount = Math_abs amt,
                     p_description = take 200 fullDesc,
                     p_currency = detectCurrency
                       (if currency_col mp \<ge> 0
                        then toUpperCase
                               (trim (nullish_else (elem_at (raw tx) (currency_col mp)) []))
                        else []),
                     counterparty = cp,
                     suggestedCategory =
                       (if num_gt amt (Fin 0) \<and> cat = js ''Other'' then js ''Other Income''
                        else cat),
                     suggestedType = (if num_gt amt (Fin 0) then Income else Expense),
                     raw = raw tx\<rparr>))"
  by (simp add: remapRow_def parsePKOAmount_def parseDateFallback_eq Let_def)

lemma parseRow_remapRow:
  assumes "parseRow mp flds = Some tx"
  shows "\<exists>c. remapRow mp tx = Some (tx\<lparr>suggestedCategory := c\<rparr>)"
proof -
  let ?v = "elem_at flds (amount_col mp)"
  define amt where "amt = parsePKOAmount (or_else ?v (js ''0''))"
  have nz: "\<not> (isNaN amt \<or> strict_eq amt (Fin 0))" and len: "\<not> length flds < 2"
    using assms by (auto simp: parseRow_def Let_def amt_def split: if_splits)
  have same: "nullish_else ?v (js ''0'') = or_else ?v (js ''0'')"
  proof (cases ?v)
    case None
    then show ?thesis by (simp add: or_else_def nullish_else_def)
  next
    case (Some s)
    show ?thesis
    proof (cases "s = []")
      case True
      with Some nz show ?thesis
        by (simp add: amt_def or_else_def parsePKOAmount_zero strict_eq_def)
    next
      case False
      with Some show ?thesis by (simp add: or_else_def nullish_else_def)
    qed
  qed
  have tx: "tx = the (parseRow mp flds)" using assms by simp
  have r: "raw tx = flds"
    unfolding tx using nz len by (simp add: parseRow_def Let_def amt_def)
  show ?thesis
    unfolding remapRow_alt r same
    using nz len
    unfolding tx amt_def
    by (simp add: parseRow_def Let_def or_else_empty)
qed

lemma map_filter_recategorized:
  "(\<And>tx. tx \<in> set txs \<Longrightarrow> \<exists>c. f tx = Some (tx\<lparr>suggestedCategory := c\<rparr>)) \<Longrightarrow>
   map withoutCategory (List.map_filter f txs) = map withoutCategory txs"
proof (induction txs)
  case Nil
  show ?case by simp
next
  case (Cons tx txs)
  from Cons.prems[of tx] obtain c where c: "f tx = Some (tx\<lparr>suggestedCategory := c\<rparr>)"
    by auto
  have step: "withoutCategory (tx\<lparr>suggestedCategory := c\<rparr>) = withoutCategory tx"
    by (simp add: withoutCategory_def)
  have "map withoutCategory (List.map_filter f txs) = map withoutCategory txs"
    using Cons.prems by (intro Cons.IH) simp
  then show ?case by (simp add: c step)
qed

lemma set_map_filter: "set (List.map_filter f xs) = {y. \<exists>x\<in>set xs. f x = Some y}"
  by (induction xs) (auto split: option.splits)

lemma parseCSV_rows:
  assumes "tx \<in> set (transactions (parseCSV csv))"
  shows "\<exists>flds. parseRow (mapping (parseCSV csv)) flds = Some tx"
  using assms
  by (auto simp: parseCSV_def Let_def set_map_filter split: if_splits)

lemma remapTransactions_up_to_category:
  "map withoutCategory (remapTransactions (parseCSV csv) (mapping (parseCSV csv))) =
   map withoutCategory (transactions (parseCSV csv))"
  unfolding remapTransactions_def
proof (rule map_filter_recategorized)
  fix tx
  assume "tx \<in> set (transactions (parseCSV csv))"
  then obtain flds where "parseRow (mapping (parseCSV csv)) flds = Some tx"
    using parseCSV_rows by blast
  then show "\<exists>c. remapRow (mapping (parseCSV csv)) tx = Some (tx\<lparr>suggestedCategory := c\<rparr>)"
    by (rule parseRow_remapRow)
qed

lemma parseCSV_carrefour:
  "parseCSV carrefour_csv =
     \<lparr>headers = [js ''Date'', js ''Amount'', js ''Description''],
      transactions =
        [\<lparr>p_date = js ''2025-01-15'', p_amount = Fin 50, p_description = js ''Carrefour'',
          p_currency = PLN, counterparty = [], suggestedCategory = js ''Food'',
          suggestedType = Expense,
          raw = [js ''2025-01-15'', js ''-50.00'', js ''Carrefour'']\<rparr>],
      autoMapped = False,
      mapping = \<lparr>date_col = 0, amount_col = 1, description_col = 2, currency_col = - 1,
                 counterparty_col = - 1\<rparr>\<rparr>"
  by (simp add: carrefour_csv_def csv_defs number_defs string_defs Let_def)

lemma remapTransactions_carrefour:
  "remapTransactions (parseCSV carrefour_csv) (mapping (parseCSV carrefour_csv)) =
     [\<lparr>p_date = js ''2025-01-15'', p_amount = Fin 50, p_description = js ''Carrefour'',
       p_currency = PLN, counterparty = [], suggestedCategory = js ''Other'',
       suggestedType = Expense,
       raw = [js ''2025-01-15'', js ''-50.00'', js ''Carrefour'']\<rparr>]"
  unfolding parseCSV_carrefour
  by (simp add: remap_defs number_defs string_defs Let_def)

text \<open>
  Claim C1 asks that remapping a parse result with its own detected mapping gives
  exactly the parsed list, categorization included. At the file with the one data row
  \<open>2025-01-15,-50.00,Carrefour\<close> the parse suggests the category Food, by the keyword
  \<open>carrefour\<close> of its table, and the remap of that result with its own mapping suggests
  Other, because \<open>detectCategoryFallback\<close> has no such keyword: the two lists differ.
\<close>

theorem remapTransactions_category_drift:
  "suggestedCategory (hd (transactions (parseCSV carrefour_csv))) = js ''Food'' \<and>
   suggestedCategory (hd (remapTransactions (parseCSV carrefour_csv)
                            (mapping (parseCSV carrefour_csv)))) = js ''Other'' \<and>
   remapTransactions (parseCSV carrefour_csv) (mapping (parseCSV carrefour_csv))
     \<noteq> transactions (parseCSV carrefour_csv)"
  unfolding remapTransactions_carrefour
  unfolding parseCSV_carrefour
  by (simp add: js_def)

subsection \<open>Amount normalization\<close>

lemma includes_single: "includes_str s [x] \<longleftrightarrow> x \<in> set s"
  by (induction s) auto

lemma spaced_filter: "spaced s c \<Longrightarrow> filter (\<lambda>x. \<not> isWhiteSpace x) s = c"
  by (induction rule: spaced.induct) auto

lemma filter_dropWhile: "filter (\<lambda>x. \<not> P x) (dropWhile P xs) = filter (\<lambda>x. \<not> P x) xs"
  by (induction xs) auto

lemma filter_trim: "filter (\<lambda>x. \<not> isWhiteSpace x) (trim s) = filter (\<lambda>x. \<not> isWhiteSpace x) s"
proof -
  have "filter (\<lambda>x. \<not> isWhiteSpace x) (trim s)
      = rev (filter (\<lambda>x. \<not> isWhiteSpace x) (dropWhile isWhiteSpace (rev (dropWhile isWhiteSpace s))))"
    by (simp add: trim_def rev_filter)
  also have "\<dots> = rev (filter (\<lambda>x. \<not> isWhiteSpace x) (rev (dropWhile isWhiteSpace s)))"
    by (simp only: filter_dropWhile)
  also have "\<dots> = filter (\<lambda>x. \<not> isWhiteSpace x) (dropWhile isWhiteSpace s)"
    by (simp add: rev_filter)
  finally show ?thesis by (simp only: filter_dropWhile)
qed

lemma digitsValue_snoc: "digitsValue (ds @ [c]) = 10 * digitsValue ds + (c - 0x30)"
  by (simp add: digitsValue_def)

lemma digitsValue_append:
  "digitsValue (ip @ fp) = digitsValue ip * 10 ^ length fp + digitsValue fp"
proof (induction fp rule: rev_induct)
  case Nil
  show ?case by (simp add: digitsValue_def)
next
  case (snoc c fp)
  have "digitsValue (ip @ fp @ [c]) = 10 * digitsValue (ip @ fp) + (c - 0x30)"
    using digitsValue_snoc[of "ip @ fp" c] by simp
  then show ?case by (simp add: snoc digitsValue_snoc algebra_simps)
qed

lemma decimalValue_eq:
  "real (digitsValue (ip @ fp)) / 10 ^ length fp = decimalValue ip fp"
  by (simp add: decimalValue_def digitsValue_append add_divide_distrib)

lemma takeWhile_digits: "list_all isDigit ds \<Longrightarrow> \<not> isDigit c \<Longrightarrow> takeWhile isDigit (ds @ c # r) = ds"
  by (induction ds) auto

lemma dropWhile_digits: "list_all isDigit ds \<Longrightarrow> \<not> isDigit c \<Longrightarrow> dropWhile isDigit (ds @ c # r) = c # r"
  by (induction ds) auto

lemma takeWhile_all: "list_all P ds \<Longrightarrow> takeWhile P ds = ds"
  by (induction ds) auto

lemma dropWhile_all: "list_all P ds \<Longrightarrow> dropWhile P ds = []"
  by (induction ds) auto

lemma not_prefix_Infinity: "isDigits ds \<Longrightarrow> \<not> prefix (js ''Infinity'') (ds @ r)"
  by (cases ds) (auto simp: isDigits_def isDigit_def js_def)

lemma digits_head: "isDigits ds \<Longrightarrow> \<exists>c r. ds = c # r \<and> isDigit c \<and> list_all isDigit r"
  by (cases ds) (auto simp: isDigits_def)

lemma parseUnsigned_frac:
  assumes "isDigits ip" "isDigits fp"
  shows "parseUnsignedLiteral neg (ip @ 0x2E # fp) =
           round64 (if neg then - decimalValue ip fp else decimalValue ip fp)"
proof -
  have ipd: "list_all isDigit ip" and fpd: "list_all isDigit fp" and ne: "ip \<noteq> []"
    and fne: "fp \<noteq> []"
    using assms by (simp_all add: isDigits_def)
  have nd: "\<not> isDigit 0x2E" by (simp add: isDigit_def)
  have inf: "\<not> prefix (js ''Infinity'') (ip @ 0x2E # fp)"
    using assms(1) by (rule not_prefix_Infinity)
  have tw: "takeWhile isDigit (ip @ 0x2E # fp) = ip"
    using ipd nd by (rule takeWhile_digits)
  have dw: "dropWhile isDigit (ip @ 0x2E # fp) = 0x2E # fp"
    using ipd nd by (rule dropWhile_digits)
  show ?thesis
    unfolding parseUnsignedLiteral_def
    using inf ne fne
    by (simp add: tw dw takeWhile_all[OF fpd] dropWhile_all[OF fpd] exponentPart_def scale10_def
        decimalValue_eq Let_def)
qed

lemma parseUnsigned_whole:
  assumes "isDigits ip"
  shows "parseUnsignedLiteral neg ip =
           round64 (if neg then - real (digitsValue ip) else real (digitsValue ip))"
proof -
  have ipd: "list_all isDigit ip" and ne: "ip \<noteq> []"
    using assms by (simp_all add: isDigits_def)
  have inf: "\<not> prefix (js ''Infinity'') ip"
    using not_prefix_Infinity[OF assms, of "[]"] by simp
  show ?thesis
    unfolding parseUnsignedLiteral_def
    using inf ne
    by (simp add: takeWhile_all[OF ipd] dropWhile_all[OF ipd] exponentPart_def scale10_def Let_def)
qed

lemma parseFloat_digit_first:
  "isDigit c \<Longrightarrow> parseFloat (c # r) = parseUnsignedLiteral False (c # r)"
  by (auto simp: parseFloat_def readSign_def digit_not_space isDigit_def)

lemma parseFloat_minus: "parseFloat (0x2D # u) = parseUnsignedLiteral True u"
  by (simp add: parseFloat_def readSign_def isWhiteSpace_def)

lemma parseFloat_plus: "parseFloat (0x2B # u) = parseUnsignedLiteral False u"
  by (simp add: parseFloat_def readSign_def isWhiteSpace_def)

lemma replaceFirst_append:
  "a \<notin> set pre \<Longrightarrow> replaceFirst a b (pre @ a # post) = pre @ b # post"
  by (induction pre) auto

lemma digits_no_comma: "list_all isDigit ds \<Longrightarrow> 0x2C \<notin> set ds"
  by (induction ds) (auto simp: isDigit_def)

lemma digits_no_point: "list_all isDigit ds \<Longrightarrow> 0x2E \<notin> set ds"
  by (induction ds) (auto simp: isDigit_def)

lemma filter_digits: "list_all isDigit ds \<Longrightarrow> filter (\<lambda>c. c \<noteq> 0x2E) ds = ds"
  by (induction ds) (auto simp: isDigit_def)

lemma filter_groups:
  "list_all (\<lambda>x. isDigits x \<and> length x = 3) gs \<Longrightarrow>
   filter (\<lambda>c. c \<noteq> 0x2E) (concat (map (\<lambda>x. js ''.'' @ x) gs)) = concat gs"
  by (induction gs) (auto simp: js_point isDigits_def filter_digits)

lemma digits_groups:
  "list_all (\<lambda>x. isDigits x \<and> length x = 3) gs \<Longrightarrow> list_all isDigit (concat gs)"
  by (induction gs) (auto simp: isDigits_def)

lemma sign_chars:
  "sg \<in> signs \<Longrightarrow> 0x2C \<notin> set sg \<and> 0x2E \<notin> set sg \<and> filter (\<lambda>c. c \<noteq> 0x2E) sg = sg"
  by (auto simp: signs_def)

lemma parseFloat_signed_frac:
  assumes "sg \<in> signs" "isDigits ip" "isDigits fp"
  shows "parseFloat (sg @ ip @ 0x2E # fp) =
           round64 (if sg = [0x2D] then - decimalValue ip fp else decimalValue ip fp)"
proof -
  from assms(2) obtain c r where ip: "ip = c # r" "isDigit c"
    using digits_head by blast
  consider "sg = []" | "sg = [0x2D]" | "sg = [0x2B]"
    using assms(1) by (auto simp: signs_def)
  then show ?thesis
  proof cases
    case 1
    have "parseFloat (ip @ 0x2E # fp) = parseUnsignedLiteral False (ip @ 0x2E # fp)"
      using ip parseFloat_digit_first[of c "r @ 0x2E # fp"] by simp
    with 1 show ?thesis by (simp add: parseUnsigned_frac[OF assms(2,3)])
  next
    case 2
    then show ?thesis
      using parseFloat_minus[of "ip @ 0x2E # fp"]
      by (simp add: parseUnsigned_frac[OF assms(2,3)])
  next
    case 3
    then show ?thesis
      using parseFloat_plus[of "ip @ 0x2E # fp"]
      by (simp add: parseUnsigned_frac[OF assms(2,3)])
  qed
qed

lemma parseFloat_signed_whole:
  assumes "sg \<in> signs" "isDigits ip"
  shows "parseFloat (sg @ ip) =
           round64 (if sg = [0x2D] then - real (digitsValue ip) else real (digitsValue ip))"
proof -
  from assms(2) obtain c r where ip: "ip = c # r" "isDigit c"
    using digits_head by blast
  consider "sg = []" | "sg = [0x2D]" | "sg = [0x2B]"
    using assms(1) by (auto simp: signs_def)
  then show ?thesis
  proof cases
    case 1
    have "parseFloat ip = parseUnsignedLiteral False ip"
      using ip parseFloat_digit_first[of c r] by simp
    with 1 show ?thesis by (simp add: parseUnsigned_whole[OF assms(2)])
  next
    case 2
    then show ?thesis
      using parseFloat_minus[of ip] by (simp add: parseUnsigned_whole[OF assms(2)])
  next
    case 3
    then show ?thesis
      using parseFloat_plus[of ip] by (simp add: parseUnsigned_whole[OF assms(2)])
  qed
qed

lemma parsePKOAmount_cleaned:
  assumes c: "filter (\<lambda>x. \<not> isWhiteSpace x) (trim s) = sg @ b"
    and sg: "sg \<in> signs" and u: "unsignedAmount b v"
  shows "parsePKOAmount s = round64 (if sg = [0x2D] then - v else v)"
  using u
proof cases
  case (commaDecimal ip fp)
  have d: "list_all isDigit ip" "list_all isDigit fp"
    using commaDecimal by (simp_all add: isDigits_def)
  have b: "b = ip @ 0x2C # fp" by (simp add: commaDecimal(1) js_comma)
  have nc: "0x2C \<notin> set (sg @ ip)"
    using sign_chars[OF sg] digits_no_comma[OF d(1)] by simp
  have np: "0x2E \<notin> set (sg @ b)"
    using sign_chars[OF sg] digits_no_point[OF d(1)] digits_no_point[OF d(2)]
    by (simp add: b)
  have hc: "0x2C \<in> set (sg @ b)" by (simp add: b)
  have "replaceFirst 0x2C 0x2E (sg @ b) = (sg @ ip) @ 0x2E # fp"
    using replaceFirst_append[OF nc, of "0x2E" fp] by (simp add: b)
  then show ?thesis
    using np hc parseFloat_signed_frac[OF sg commaDecimal(3,4)]
    by (simp add: parsePKOAmount_def c includes_single js_comma js_point commaDecimal(2) Let_def)
next
  case (dotDecimal ip fp)
  have d: "list_all isDigit ip" "list_all isDigit fp"
    using dotDecimal by (simp_all add: isDigits_def)
  have b: "b = ip @ 0x2E # fp" by (simp add: dotDecimal(1) js_point)
  have nc: "0x2C \<notin> set (sg @ b)"
    using sign_chars[OF sg] digits_no_comma[OF d(1)] digits_no_comma[OF d(2)]
    by (simp add: b)
  show ?thesis
    using nc parseFloat_signed_frac[OF sg dotDecimal(3,4)]
    by (simp add: parsePKOAmount_def c includes_single js_comma js_point b dotDecimal(2) Let_def)
next
  case (mixedDecimal g gs fp)
  have d: "list_all isDigit g" "list_all isDigit fp" "list_all isDigit (concat gs)"
    using mixedDecimal digits_groups by (simp_all add: isDigits_def)
  have ig: "isDigits (g @ concat gs)"
    using mixedDecimal(3) d by (simp add: isDigits_def)
  have b: "b = g @ concat (map (\<lambda>x. js ''.'' @ x) gs) @ 0x2C # fp"
    by (simp add: mixedDecimal(1) js_comma)
  have hc: "0x2C \<in> set (sg @ b)" by (simp add: b)
  have hp: "0x2E \<in> set (sg @ b)"
    using mixedDecimal(5) by (cases gs) (simp_all add: b js_point)
  have f: "filter (\<lambda>c. c \<noteq> 0x2E) (sg @ b) = (sg @ g @ concat gs) @ 0x2C # fp"
    using sign_chars[OF sg] filter_groups[OF mixedDecimal(6)] d
    by (simp add: b filter_digits)
  have nc: "0x2C \<notin> set (sg @ g @ concat gs)"
    using sign_chars[OF sg] digits_no_comma[OF d(1)] digits_no_comma[OF d(3)] by simp
  have "replaceFirst 0x2C 0x2E (filter (\<lambda>c. c \<noteq> 0x2E) (sg @ b)) =
          (sg @ g @ concat gs) @ 0x2E # fp"
    unfolding f using nc by (rule replaceFirst_append)
  then show ?thesis
    using hc hp parseFloat_signed_frac[OF sg ig mixedDecimal(7)]
    by (simp add: parsePKOAmount_def c includes_single js_comma js_point mixedDecimal(2) Let_def)
next
  case wholeNumber
  have d: "list_all isDigit b"
    using wholeNumber by (simp_all add: isDigits_def)
  have nc: "0x2C \<notin> set (sg @ b)"
    using sign_chars[OF sg] digits_no_comma[OF d] by simp
  show ?thesis
    using nc parseFloat_signed_whole[OF sg wholeNumber(2)]
    by (simp add: parsePKOAmount_def c includes_single js_comma js_point wholeNumber(1) Let_def)
qed

text \<open>
  Claim C3. Every string in one of the notations of an amount (decimal comma, decimal
  point, thousands set off by points before a decimal comma, or plain digits; with or
  without a sign; with white space anywhere) is normalized to the number it denotes,
  the sign kept: to the binary64 value of that number, as every number of the language
  is one. In particular \<open>1234,56\<close>, \<open>1 234,56\<close> and \<open>1.234,56\<close> all give
  1234.56.
\<close>

theorem parsePKOAmount_notations:
  "(amountString s v \<longrightarrow> parsePKOAmount s = round64 v) \<and>
   parsePKOAmount (js ''1234,56'') = round64 1234.56 \<and>
   parsePKOAmount (js ''1 234,56'') = round64 1234.56 \<and>
   parsePKOAmount (js ''1.234,56'') = round64 1234.56"
proof -
  have main: "parsePKOAmount s = round64 v" if a: "amountString s v"
  proof -
    from a obtain c where sp: "spaced s c" and sa: "signedAmount c v"
      by (auto simp: amountString_def)
    have f: "filter (\<lambda>x. \<not> isWhiteSpace x) (trim s) = c"
      using spaced_filter[OF sp] by (simp add: filter_trim)
    from sa show ?thesis
    proof cases
      case unsigned
      then show ?thesis
        using parsePKOAmount_cleaned[of s "[]" c v] f by (simp add: signs_def)
    next
      case (minus b w)
      then show ?thesis
        using parsePKOAmount_cleaned[of s "[0x2D]" b w] f by (simp add: signs_def js_minus)
    next
      case (plus b)
      then show ?thesis
        using parsePKOAmount_cleaned[of s "[0x2B]" b v] f by (simp add: signs_def js_plus)
    qed
  qed
  have ex: "parsePKOAmount (js ''1234,56'') = round64 1234.56"
   "parsePKOAmount (js ''1 234,56'') = round64 1234.56"
   "parsePKOAmount (js ''1.234,56'') = round64 1234.56"
    by (simp_all add: parsePKOAmount_def parseFloat_def parseUnsignedLiteral_def js_def trim_def
      isWhiteSpace_def Let_def readSign_def isDigit_def exponentPart_def scale10_def digitsValue_def)
  show ?thesis using main ex by simp
qed


lemma filter_spaced: "spaced s (filter (\<lambda>x. \<not> isWhiteSpace x) s)"
  by (induction s) (auto intro: spaced.intros)

text \<open>
  A negative amount with spaces between the thousands and a decimal comma, and an amount
  with two groups of thousands set off by points.
\<close>

theorem parsePKOAmount_notations_witness:
  "amountString (js ''-1 234 567,89'') (- 1234567.89) \<and>
   parsePKOAmount (js ''-1 234 567,89'') = round64 (- 1234567.89) \<and>
   amountString (js ''12.345.678,5'') 12345678.5 \<and>
   parsePKOAmount (js ''12.345.678,5'') = round64 12345678.5"
proof -
  have "unsignedAmount (js ''1234567'' @ js '','' @ js ''89'')
          (decimalValue (js ''1234567'') (js ''89''))"
    by (rule unsignedAmount.commaDecimal) (simp_all add: isDigits_def isDigit_def js_def)
  then have "signedAmount (js ''-'' @ js ''1234567'' @ js '','' @ js ''89'')
          (- decimalValue (js ''1234567'') (js ''89''))"
    by (rule signedAmount.minus)
  then have s1: "signedAmount (js ''-1234567,89'') (- 1234567.89)"
    by (simp add: js_def decimalValue_def digitsValue_def)
  have "spaced (js ''-1 234 567,89'') (filter (\<lambda>x. \<not> isWhiteSpace x) (js ''-1 234 567,89''))"
    by (rule filter_spaced)
  then have p1: "spaced (js ''-1 234 567,89'') (js ''-1234567,89'')"
    by (simp add: js_def isWhiteSpace_def)
  have a1: "amountString (js ''-1 234 567,89'') (- 1234567.89)"
    unfolding amountString_def using p1 s1 by blast
  have "unsignedAmount
          (js ''12'' @ concat (map (\<lambda>x. js ''.'' @ x) [js ''345'', js ''678'']) @ js '','' @ js ''5'')
          (decimalValue (js ''12'' @ concat [js ''345'', js ''678'']) (js ''5''))"
    by (rule unsignedAmount.mixedDecimal) (simp_all add: isDigits_def isDigit_def js_def)
  then have "unsignedAmount (js ''12.345.678,5'') 12345678.5"
    by (simp add: js_def decimalValue_def digitsValue_def)
  then have s2: "signedAmount (js ''12.345.678,5'') 12345678.5"
    by (rule signedAmount.unsigned)
  have "spaced (js ''12.345.678,5'') (filter (\<lambda>x. \<not> isWhiteSpace x) (js ''12.345.678,5''))"
    by (rule filter_spaced)
  then have p2: "spaced (js ''12.345.678,5'') (js ''12.345.678,5'')"
    by (simp add: js_def isWhiteSpace_def)
  have a2: "amountString (js ''12.345.678,5'') 12345678.5"
    unfolding amountString_def using p2 s2 by blast
  show ?thesis
    using a1 a2 parsePKOAmount_notations[of "js ''-1 234 567,89''" "- 1234567.89"] parsePKOAmount_notations[of "js ''12.345.678,5''" "12345678.5"]
    by simp
qed


subsection \<open>Export and import\<close>

text \<open>
  A value without \<open>undefined\<close> and with distinct property names is written to a
  document from which \<open>JSON.parse\<close> builds the value again, up to the numbers that are
  not finite, which come back as \<open>null\<close>.
\<close>

lemma setProperty_new: "k \<notin> fst ` set acc \<Longrightarrow> setProperty acc k v = acc @ [(k, v)]"
  by (induction acc) auto

lemma json_roundtrip:
  "(wellFormed v \<longrightarrow> (\<exists>j. serialize v = Some j \<and> revive j = nullified v))"
  "(wellFormedElements xs \<longrightarrow> reviveElements (serializeElements xs) = nullifiedElements xs)"
  "(wellFormedProperties ps \<longrightarrow>
      (\<forall>acc. distinct (map fst (acc @ ps)) \<longrightarrow>
             reviveMembers acc (serializeProperties ps) = acc @ nullifiedProperties ps))"
proof (induction v and xs and ps rule: serialize_serializeElements_serializeProperties.induct)
  case (4 n)
  then show ?case by (cases n) simp_all
next
  case (7 ps)
  then show ?case by (auto dest: spec[of _ "[]"])
next
  case (9 x xs)
  then show ?case by auto
next
  case (11 p ps)
  show ?case
  proof (intro impI allI)
    fix acc
    assume jp: "wellFormedProperties (p # ps)" and d: "distinct (map fst (acc @ p # ps))"
    let ?q = "(fst p, nullified (snd p))"
    from jp 11(1) obtain j where j: "serialize (snd p) = Some j" "revive j = nullified (snd p)"
      by auto
    have new: "fst p \<notin> fst ` set acc" using d by auto
    have d': "distinct (map fst ((acc @ [?q]) @ ps))" using d by simp
    have "reviveMembers (acc @ [?q]) (serializeProperties ps) =
            (acc @ [?q]) @ nullifiedProperties ps"
      using 11(3)[OF j(1)] jp d' by simp
    then show "reviveMembers acc (serializeProperties (p # ps)) =
                 acc @ nullifiedProperties (p # ps)"
      using j new by (simp add: setProperty_new)
  qed
qed simp_all

text \<open>The value that comes back is written to the same document as the value itself.\<close>

lemma serialize_nullified:
  "serialize (nullified v) = serialize v"
  "serializeElements (nullifiedElements xs) = serializeElements xs"
  "serializeProperties (nullifiedProperties ps) = serializeProperties ps"
proof (induction v and xs and ps rule: nullified_nullifiedElements_nullifiedProperties.induct)
  case (4 n)
  then show ?case by (cases n) simp_all
next
  case (11 p ps)
  then show ?case by (simp split: option.split)
qed simp_all

lemma wellFormedElements_map: "(\<And>x. wellFormed (f x)) \<Longrightarrow> wellFormedElements (map f xs)"
  by (induction xs) auto

lemma wellFormedProperties_append:
  "wellFormedProperties (ps @ qs) = (wellFormedProperties ps \<and> wellFormedProperties qs)"
  by (induction ps) auto

lemma wellFormedProperties_optional:
  "(\<And>x. wellFormed (f x)) \<Longrightarrow> wellFormedProperties (optional k f v)"
  by (cases v) (simp_all add: optional_def)

lemma map_fst_optional: "map fst (optional k f v) = (case v of None \<Rightarrow> [] | Some x \<Rightarrow> [k])"
  by (cases v) (simp_all add: optional_def)

lemma wellFormed_currency: "wellFormed (valueOfCurrency c)"
  by (simp add: valueOfCurrency_def)

lemma wellFormed_interval: "wellFormed (valueOfInterval i)"
  by (simp add: valueOfInterval_def)

lemma wellFormed_transaction: "wellFormed (valueOfTransaction t)"
  by (auto simp: valueOfTransaction_def wellFormedProperties_append wellFormed_currency
      wellFormed_interval valueOfType_def map_fst_optional js_eq_iff
      intro!: wellFormedProperties_optional split: option.splits)

lemma wellFormed_debt: "wellFormed (valueOfDebt t)"
  by (auto simp: valueOfDebt_def wellFormedProperties_append wellFormed_currency
      map_fst_optional js_eq_iff
      intro!: wellFormedProperties_optional split: option.splits)

lemma wellFormed_goal: "wellFormed (valueOfSavingsGoal t)"
  by (auto simp: valueOfSavingsGoal_def wellFormedProperties_append wellFormed_currency
      map_fst_optional js_eq_iff
      intro!: wellFormedProperties_optional split: option.splits)

lemma wellFormed_settings: "wellFormed (valueOfSettings u)"
  by (auto simp: valueOfSettings_def wellFormedProperties_append wellFormed_currency
      map_fst_optional js_eq_iff
      intro!: wellFormedProperties_optional split: option.splits)

lemma wellFormed_appData: "wellFormed (valueOfAppData d)"
  by (simp add: valueOfAppData_def js_eq_iff wellFormedElements_map wellFormed_transaction
      wellFormed_debt wellFormed_goal wellFormed_settings)

text \<open>A dataset all of whose numbers are finite comes back as it is.\<close>

lemma nullifiedElements_map:
  "list_all P xs \<Longrightarrow> (\<And>x. P x \<Longrightarrow> nullified (f x) = f x) \<Longrightarrow>
   nullifiedElements (map f xs) = map f xs"
  by (induction xs) auto

lemma nullifiedProperties_append:
  "nullifiedProperties (ps @ qs) = nullifiedProperties ps @ nullifiedProperties qs"
  by (induction ps) auto

lemma nullified_currency: "nullified (valueOfCurrency c) = valueOfCurrency c"
  by (simp add: valueOfCurrency_def)

lemma nullified_interval: "nullified (valueOfInterval i) = valueOfInterval i"
  by (simp add: valueOfInterval_def)

lemma nullified_transaction:
  "finiteTransaction t \<Longrightarrow> nullified (valueOfTransaction t) = valueOfTransaction t"
  by (auto simp: valueOfTransaction_def finiteTransaction_def isFiniteOpt_def
      nullifiedProperties_append optional_def nullified_currency
      nullified_interval valueOfType_def split: option.splits)

lemma nullified_debt: "finiteDebt t \<Longrightarrow> nullified (valueOfDebt t) = valueOfDebt t"
  by (auto simp: valueOfDebt_def finiteDebt_def isFiniteOpt_def nullifiedProperties_append
      optional_def nullified_currency split: option.splits)

lemma nullified_goal:
  "finiteSavingsGoal t \<Longrightarrow> nullified (valueOfSavingsGoal t) = valueOfSavingsGoal t"
  by (auto simp: valueOfSavingsGoal_def finiteSavingsGoal_def nullifiedProperties_append
      optional_def nullified_currency split: option.splits)

lemma nullified_settings:
  "isFinite (settings_exchangeRate u) \<Longrightarrow> isFiniteOpt (monthlyBudget u) \<Longrightarrow>
   nullified (valueOfSettings u) = valueOfSettings u"
  by (auto simp: valueOfSettings_def isFiniteOpt_def nullifiedProperties_append
      optional_def nullified_currency split: option.splits)

lemma nullified_appData:
  assumes "finiteAppData d"
  shows "nullified (valueOfAppData d) = valueOfAppData d"
proof -
  have "nullifiedElements (map valueOfTransaction (data_transactions d)) =
          map valueOfTransaction (data_transactions d)"
    using assms by (intro nullifiedElements_map[of finiteTransaction])
      (simp_all add: finiteAppData_def nullified_transaction)
  moreover have "nullifiedElements (map valueOfDebt (debts d)) = map valueOfDebt (debts d)"
    using assms by (intro nullifiedElements_map[of finiteDebt])
      (simp_all add: finiteAppData_def nullified_debt)
  moreover have "nullifiedElements (map valueOfSavingsGoal (savingsGoals d)) =
                   map valueOfSavingsGoal (savingsGoals d)"
    using assms by (intro nullifiedElements_map[of finiteSavingsGoal])
      (simp_all add: finiteAppData_def nullified_goal)
  moreover have "nullified (valueOfSettings (settings d)) = valueOfSettings (settings d)"
    using assms by (simp add: finiteAppData_def nullified_settings)
  ultimately show ?thesis
    by (simp add: valueOfAppData_def)
qed

text \<open>
  The import of an export reads the value that comes back from the text, finds its two
  properties, and returns it if the store takes the write. What it writes is the text of
  the value read, which denotes the document of the exported text.
\<close>

lemma import_export:
  "importData (exportData d) store =
     (if accepts store STORAGE_KEY (exportData d)
      then (Some (nullified (valueOfAppData d)),
            store\<lparr>items := (items store)(STORAGE_KEY \<mapsto> exportData d)\<rparr>)
      else (None, store))"
proof -
  let ?v = "nullified (valueOfAppData d)"
  from json_roundtrip(1)[of "valueOfAppData d"] wellFormed_appData[of d]
  obtain j where j: "serialize (valueOfAppData d) = Some j" "revive j = ?v"
    by blast
  have e: "exportData d = Text j"
    by (simp add: exportData_def JSON_stringify_def j)
  have p: "JSON_parse (Text j) = Some ?v"
    by (simp add: JSON_parse_def j)
  have g1: "getProperty ?v (js ''transactions'') =
              Some (JArr (nullifiedElements (map valueOfTransaction (data_transactions d))))"
    by (simp add: valueOfAppData_def js_eq_iff)
  have g2: "getProperty ?v (js ''settings'') = Some (nullified (valueOfSettings (settings d)))"
    by (simp add: valueOfAppData_def js_eq_iff)
  have t2: "truthy (nullified (valueOfSettings (settings d)))"
    by (simp add: valueOfSettings_def)
  have s: "saveData ?v store = setItem STORAGE_KEY (Text j) store"
    by (simp add: saveData_def JSON_stringify_def serialize_nullified j)
  show ?thesis
    unfolding e importData_def p
    by (simp add: g1 g2 t2 s setItem_def)
qed

text \<open>
  A file whose amount field reads \<open>Infinity\<close> is parsed to a transaction with an
  infinite amount: such numbers do reach the dataset.
\<close>

lemma parseCSV_infinity:
  "map p_amount (transactions (parseCSV infinity_csv)) = [PosInfinity]"
  by (simp add: infinity_csv_def csv_defs number_defs string_defs Let_def)

lemma finite_sample_data: "finiteAppData sample_data"
  by (simp add: finiteAppData_def finiteTransaction_def finiteDebt_def finiteSavingsGoal_def
      isFiniteOpt_def sample_data_def salary_tx_def food_tx_def car_loan_def holiday_goal_def
      default_settings_def)

text \<open>
  Claim C8 asks that importing the export of every dataset succeeds and gives the
  dataset back. A dataset with an infinite amount does not come back: the export writes
  the amount as \<open>null\<close>. And with a store that refuses the write, the import of the
  export of a dataset returns \<open>null\<close>, although all its numbers are finite.
\<close>

theorem import_export_infinite_amount:
  "fst (importData (exportData infinite_data) empty_store) \<noteq>
     Some (valueOfAppData infinite_data) \<and>
   finiteAppData sample_data \<and>
   fst (importData (exportData sample_data) full_store) = None"
proof -
  have "fst (importData (exportData infinite_data) empty_store) \<noteq>
          Some (valueOfAppData infinite_data)"
    by (simp add: importData_def exportData_def JSON_stringify_def JSON_parse_def
        saveData_def setItem_def empty_store_def
        valueOfAppData_def valueOfTransaction_def valueOfSettings_def valueOfCurrency_def
        valueOfType_def infinite_data_def infinite_tx_def default_settings_def optional_def
        js_eq_iff)
  moreover have "fst (importData (exportData sample_data) full_store) = None"
    by (simp add: import_export full_store_def)
  ultimately show ?thesis
    by (simp add: finite_sample_data)
qed

text \<open>
  Claim C8, amended. Importing the export of a dataset succeeds exactly when the store
  takes the write. It then returns the dataset with every number that is not finite
  replaced by \<open>null\<close>, and stores a text of it under the key of the application;
  otherwise it returns \<open>null\<close> and leaves the store as it was. When every number of the
  dataset is finite, what is returned is the dataset itself, property for property.
\<close>

theorem import_export_roundtrip:
  "importData (exportData d) store =
     (if accepts store STORAGE_KEY (exportData d)
      then (Some (nullified (valueOfAppData d)),
            store\<lparr>items := (items store)(STORAGE_KEY \<mapsto> exportData d)\<rparr>)
      else (None, store)) \<and>
   (finiteAppData d \<longrightarrow> nullified (valueOfAppData d) = valueOfAppData d)"
  by (intro conjI impI import_export nullified_appData)

theorem import_export_roundtrip_witness:
  "finiteAppData sample_data \<and>
   importData (exportData sample_data) empty_store =
     (Some (valueOfAppData sample_data),
      empty_store\<lparr>items := (items empty_store)(STORAGE_KEY \<mapsto> exportData sample_data)\<rparr>) \<and>
   importData (exportData sample_data) full_store = (None, full_store)"
  using import_export_roundtrip[of sample_data empty_store]
    import_export_roundtrip[of sample_data full_store] finite_sample_data
  by (simp add: empty_store_def full_store_def)

end
